theory Spec2Isabelle
  imports Complex_Main "HOL-Library.Multiset"
begin

text \<open>
  A model of the scoring core of the candidate screener: the retry controller, the batches,
  the two scoring strategies and the fallback between them, the waves of batches, the final
  ranking, the validation of a free-text response, and the validation of a request. The
  language model, the clock, the environment variables and \<^verbatim>\<open>JSON.parse\<close> are outside the
  program; a run reads them from a record, and returns its result together with the trace
  of its calls to the language model and of its pauses.
\<close>

section \<open>Thrown values and the error taxonomy\<close>

text \<open>
  The orchestration core (\<^verbatim>\<open>ai-service.ts\<close>) catches values of type \<^verbatim>\<open>unknown\<close> and
  reads them through the interface \<^verbatim>\<open>APIError\<close>, every field of which is optional.
  A field that is absent reads \<^verbatim>\<open>undefined\<close>; it is \<open>None\<close> here.
\<close>

record APIError =
  status :: "int option"
  retryAfter :: "nat option"
  message :: "string option"
  code :: "string option"
  name :: "string option"
  issues :: "string list option"
  rawResponse :: "string option"

text \<open>
  A thrown value is an object (read as an \<^verbatim>\<open>APIError\<close>) or anything else. For a value
  that is not an object the code only looks at its truthiness and at its conversion by
  \<^verbatim>\<open>String(...)\<close>, so such a value is kept as that pair. (\<^verbatim>\<open>null\<close> is one of them:
  \<^verbatim>\<open>isAPIError\<close> excludes it explicitly.)
\<close>

datatype thrown = Primitive bool string | Object APIError

fun isAPIError :: "thrown \<Rightarrow> bool" where
  "isAPIError (Object _) = True"
| "isAPIError (Primitive _ _) = False"

text \<open>\<^verbatim>\<open>new Error(msg)\<close>: an object whose name is "Error" and that carries the message only.\<close>

definition newError :: "string \<Rightarrow> thrown" where
  "newError msg = Object \<lparr>status = None, retryAfter = None, message = Some msg, code = None,
     name = Some ''Error'', issues = None, rawResponse = None\<rparr>"

text \<open>The value of an uninitialised variable, thrown by \<^verbatim>\<open>throw lastError!\<close> when no call was made.\<close>

definition undefinedValue :: thrown where
  "undefinedValue = Primitive False ''undefined''"

text \<open>
  The tagged union \<^verbatim>\<open>ScoringError\<close> of \<^verbatim>\<open>types.ts\<close>. Arguments, in order:
  \<open>RATE_LIMIT retryAfter message\<close>, \<open>PARSE_ERROR details rawResponse\<close>,
  \<open>NETWORK_ERROR message code\<close>, \<open>VALIDATION_ERROR field message\<close>,
  \<open>QUOTA_EXCEEDED resetTime message\<close> (the time in milliseconds), \<open>UNKNOWN_ERROR message\<close>.
\<close>

datatype ScoringError =
    RATE_LIMIT nat string
  | PARSE_ERROR string "string option"
  | NETWORK_ERROR string "string option"
  | VALIDATION_ERROR string string
  | QUOTA_EXCEEDED nat string
  | UNKNOWN_ERROR string

datatype errorType =
  T_RATE_LIMIT | T_PARSE_ERROR | T_NETWORK_ERROR | T_VALIDATION_ERROR | T_QUOTA_EXCEEDED
  | T_UNKNOWN_ERROR

fun typeOf :: "ScoringError \<Rightarrow> errorType" where
  "typeOf (RATE_LIMIT _ _) = T_RATE_LIMIT"
| "typeOf (PARSE_ERROR _ _) = T_PARSE_ERROR"
| "typeOf (NETWORK_ERROR _ _) = T_NETWORK_ERROR"
| "typeOf (VALIDATION_ERROR _ _) = T_VALIDATION_ERROR"
| "typeOf (QUOTA_EXCEEDED _ _) = T_QUOTA_EXCEEDED"
| "typeOf (UNKNOWN_ERROR _) = T_UNKNOWN_ERROR"

text \<open>\<^verbatim>\<open>s.includes(sub)\<close>: \<open>sub\<close> occurs in \<open>s\<close> as a contiguous block.\<close>

fun includes' :: "string \<Rightarrow> string \<Rightarrow> bool" where
  "includes' [] sub = (sub = [])"
| "includes' (c # cs) sub = (take (length sub) (c # cs) = sub \<or> includes' cs sub)"

text \<open>
  \<^verbatim>\<open>mapErrorToScoringError\<close>, branch by branch in the order of the source. The first
  argument is the reading of \<^verbatim>\<open>Date.now()\<close>. The operator \<^verbatim>\<open>||\<close> replaces every falsy
  value: an absent field, \<open>0\<close> and the empty string.
\<close>

definition mapErrorToScoringError :: "nat \<Rightarrow> thrown \<Rightarrow> ScoringError" where
  "mapErrorToScoringError now error =
     (case error of
        Primitive truthy text \<Rightarrow>
          UNKNOWN_ERROR (if truthy then text else ''Unknown error occurred'')
      | Object e \<Rightarrow>
          if status e = Some 429 then
            RATE_LIMIT (case retryAfter e of None \<Rightarrow> 60 | Some n \<Rightarrow> if n = 0 then 60 else n)
              ''API rate limit exceeded''
          else if status e = Some 402 \<or> code e = Some ''insufficient_quota'' then
            QUOTA_EXCEEDED (now + 24 * 60 * 60 * 1000) ''API quota exceeded''
          else if code e = Some ''ECONNREFUSED'' \<or> code e = Some ''ENOTFOUND''
                  \<or> code e = Some ''TIMEOUT'' then
            NETWORK_ERROR
              (''Network error: '' @ (case message e of None \<Rightarrow> ''undefined'' | Some m \<Rightarrow> m))
              (code e)
          else if name e = Some ''ZodError'' \<or> issues e \<noteq> None then
            VALIDATION_ERROR ''response'' ''Invalid response format from AI model''
          else if name e = Some ''SyntaxError''
                  \<and> (case message e of None \<Rightarrow> False | Some m \<Rightarrow> includes' m ''JSON'') then
            PARSE_ERROR (case message e of None \<Rightarrow> [] | Some m \<Rightarrow> m)
              (case rawResponse e of None \<Rightarrow> None | Some r \<Rightarrow> if r = [] then None else Some r)
          else
            UNKNOWN_ERROR
              (case message e of None \<Rightarrow> ''Unknown error occurred''
               | Some m \<Rightarrow> if m = [] then ''Unknown error occurred'' else m))"

section \<open>The retry controller\<close>

text \<open>
  \<^verbatim>\<open>DEFAULT_CONFIG\<close>: the constants the functions below read.
\<close>

definition maxRetries :: nat where "maxRetries = 3"
definition baseDelay :: nat where "baseDelay = 1000"
definition maxDelay :: nat where "maxDelay = 10000"
definition defaultBatchSize :: nat where "defaultBatchSize = 10"
definition maxConcurrentBatches :: nat where "maxConcurrentBatches = 3"

definition calculateDelay :: "nat \<Rightarrow> nat" where
  "calculateDelay attempt = min (baseDelay * 2 ^ attempt) maxDelay"

text \<open>
  The effects of a run are kept as a trace of events: each invocation of one of the two
  operations of the language-model gateway, and each pause (\<^verbatim>\<open>setTimeout\<close>) with its
  length in milliseconds.
\<close>

datatype llm_call = GenerateObject | GenerateText

datatype event = Invoke llm_call | Sleep nat

text \<open>
  An asynchronous operation either resolves with a value or rejects with a thrown value.
  The operation handed to \<^verbatim>\<open>retryWithBackoff\<close> may behave differently each time it is
  invoked, so it is a function from the number of the invocation to its outcome.
\<close>

datatype 'a outcome = Resolves 'a | Rejects thrown

text \<open>
  The loop of \<^verbatim>\<open>retryWithBackoff\<close>, with the loop variable \<open>attempt\<close>, the variable
  \<open>lastError\<close> and the trace so far as arguments. The source has two branches that pause
  (one for status 429, ending in \<^verbatim>\<open>continue\<close>, one for every other failure); both are
  kept.
\<close>

function retryLoop ::
  "llm_call \<Rightarrow> (nat \<Rightarrow> 'a outcome) \<Rightarrow> nat \<Rightarrow> nat \<Rightarrow> thrown option \<Rightarrow> event list
     \<Rightarrow> (thrown + 'a) \<times> event list" where
  "retryLoop call operation retries attempt lastError trace =
     (if attempt \<le> retries then
        (case operation attempt of
           Resolves v \<Rightarrow> (Inr v, trace @ [Invoke call])
         | Rejects error \<Rightarrow>
             if isAPIError error \<and> (case error of Object e \<Rightarrow> status e = Some 429 | _ \<Rightarrow> False)
                \<and> attempt < retries then
               retryLoop call operation retries (attempt + 1) (Some error)
                 (trace @ [Invoke call, Sleep (calculateDelay attempt)])
             else if attempt < retries then
               retryLoop call operation retries (attempt + 1) (Some error)
                 (trace @ [Invoke call, Sleep (calculateDelay attempt)])
             else
               retryLoop call operation retries (attempt + 1) (Some error)
                 (trace @ [Invoke call]))
      else
        (Inl (case lastError of None \<Rightarrow> undefinedValue | Some e \<Rightarrow> e), trace))"
  by pat_completeness auto
termination
  by (relation "measure (\<lambda>(call, operation, retries, attempt, lastError, trace).
        Suc retries - attempt)") auto

declare retryLoop.simps [simp del]

definition retryWithBackoff ::
  "llm_call \<Rightarrow> (nat \<Rightarrow> 'a outcome) \<Rightarrow> nat \<Rightarrow> (thrown + 'a) \<times> event list" where
  "retryWithBackoff call operation retries = retryLoop call operation retries 0 None []"

text \<open>
  Two readings of a trace, used to state the properties of the controller: the number of
  invocations, and, for each invocation in order, the pause that directly precedes it
  (\<open>None\<close> when it follows no pause).
\<close>

fun invocations :: "event list \<Rightarrow> nat" where
  "invocations [] = 0"
| "invocations (Invoke _ # es) = Suc (invocations es)"
| "invocations (Sleep _ # es) = invocations es"

fun delaysBefore :: "nat option \<Rightarrow> event list \<Rightarrow> nat option list" where
  "delaysBefore pending [] = []"
| "delaysBefore pending (Sleep d # es) = delaysBefore (Some d) es"
| "delaysBefore pending (Invoke _ # es) = pending # delaysBefore None es"

text \<open>
  The shape of a trace: the failed invocations \<open>a, \<dots>, n - 1\<close>, each followed by its pause,
  and then one more invocation.
\<close>

definition pauses :: "llm_call \<Rightarrow> nat \<Rightarrow> nat \<Rightarrow> event list" where
  "pauses call a n = concat (map (\<lambda>k. [Invoke call, Sleep (calculateDelay k)]) [a..<n])"

definition backoffTrace :: "llm_call \<Rightarrow> nat \<Rightarrow> event list" where
  "backoffTrace call n = pauses call 0 n @ [Invoke call]"

section \<open>Batches\<close>

text \<open>\<^verbatim>\<open>xs.slice(start, end)\<close> for indices that are natural numbers.\<close>

definition slice :: "'a list \<Rightarrow> nat \<Rightarrow> nat \<Rightarrow> 'a list" where
  "slice xs start end' = drop start (take end' xs)"

text \<open>
  \<^verbatim>\<open>createBatches\<close>. The number of batches is \<^verbatim>\<open>Math.ceil(items.length / batchSize)\<close>, a
  division of numbers and not of integers, so it is a division of rationals here (for
  lengths below \<open>2^53\<close> the rounding of the floating-point quotient never reaches the next
  integer). A batch size of \<open>0\<close> makes the quotient \<^verbatim>\<open>Infinity\<close> for a non-empty list, and
  \<^verbatim>\<open>Array.from\<close> throws a RangeError; for the empty list the quotient is \<^verbatim>\<open>NaN\<close>, the length
  is read as \<open>0\<close> and the result is empty, which is also what the division by zero of HOL
  gives below.
\<close>

definition rangeError :: thrown where
  "rangeError = Object \<lparr>status = None, retryAfter = None, message = Some ''Invalid array length'',
     code = None, name = Some ''RangeError'', issues = None, rawResponse = None\<rparr>"

definition createBatches :: "'a list \<Rightarrow> nat \<Rightarrow> thrown + 'a list list" where
  "createBatches items batchSize =
     (if batchSize = 0 \<and> items \<noteq> [] then Inl rangeError
      else Inr (map (\<lambda>i. slice items (i * batchSize) ((i + 1) * batchSize))
                  [0..<nat \<lceil>rat_of_nat (length items) / rat_of_nat batchSize\<rceil>]))"

section \<open>Candidates and responses of the model\<close>

text \<open>
  The required fields of \<^verbatim>\<open>Candidate\<close>; its optional fields are copied along with the
  record and read by nothing that is modelled here. The field \<^verbatim>\<open>id\<close> is \<open>id'\<close>.
\<close>

record Candidate =
  id' :: string
  name :: string
  email :: string
  experience :: nat
  location :: string
  bio :: string

text \<open>
  A value produced by \<^verbatim>\<open>JSON.parse\<close>. Numbers are rationals (every finite double is one;
  a literal that overflows parses to an infinity, which is outside every bounded range like
  any large rational). An object lists each of its keys once.
\<close>

datatype json =
    JNull
  | JBool bool
  | JNumber rat
  | JString string
  | JArray "json list"
  | JObject "(string \<times> json) list"

text \<open>
  Reading a property of a value that is not \<^verbatim>\<open>null\<close>: \<open>None\<close> is \<^verbatim>\<open>undefined\<close>. None of the
  property names read below is defined on the prototypes of strings, numbers, booleans or
  arrays. Reading a property of \<^verbatim>\<open>null\<close> throws a TypeError, which the callers write out.
\<close>

fun property :: "json \<Rightarrow> string \<Rightarrow> json option" where
  "property (JObject members) key = map_of members key"
| "property _ key = None"

fun truthy :: "json option \<Rightarrow> bool" where
  "truthy None = False"
| "truthy (Some JNull) = False"
| "truthy (Some (JBool b)) = b"
| "truthy (Some (JNumber n)) = (n \<noteq> 0)"
| "truthy (Some (JString s)) = (s \<noteq> [])"
| "truthy (Some (JArray _)) = True"
| "truthy (Some (JObject _)) = True"

fun isString :: "json option \<Rightarrow> bool" where
  "isString (Some (JString _)) = True"
| "isString _ = False"

fun isNumber :: "json option \<Rightarrow> bool" where
  "isNumber (Some (JNumber _)) = True"
| "isNumber _ = False"

fun isArray :: "json option \<Rightarrow> bool" where
  "isArray (Some (JArray _)) = True"
| "isArray _ = False"

fun asString :: "json option \<Rightarrow> string" where
  "asString (Some (JString s)) = s"
| "asString _ = []"

fun asNumber :: "json option \<Rightarrow> rat" where
  "asNumber (Some (JNumber n)) = n"
| "asNumber _ = 0"

fun asArray :: "json option \<Rightarrow> json list" where
  "asArray (Some (JArray xs)) = xs"
| "asArray _ = []"

text \<open>
  \<^verbatim>\<open>AICandidateResponse\<close>: one item of a response. The two arrays hold strings by their
  static type; after the constrained-text strategy they hold whatever the text had, so they
  are lists of JSON values.
\<close>

record AICandidateResponse =
  id' :: string
  score :: rat
  highlights :: "json list"
  reasoning :: string
  matchedSkills :: "json list"

record ScoredCandidate = Candidate +
  score :: rat
  highlights :: "json list"
  reasoning :: string
  matchedSkills :: "json list"
  scoringTimestamp :: nat

datatype 'a Result = Success 'a | Failure ScoringError

type_synonym ScoringResult = "ScoredCandidate list Result"

text \<open>\<open>BatchFailure error batchIndex\<close>.\<close>

datatype BatchResult = BatchSuccess "ScoredCandidate list" | BatchFailure ScoringError nat

section \<open>Validation of a free-text response\<close>

record ValidationResult =
  isValid :: bool
  error :: "string option"
  parsed :: "json option"

definition invalid :: "string \<Rightarrow> ValidationResult" where
  "invalid msg = \<lparr>isValid = False, error = Some msg, parsed = None\<rparr>"

text \<open>The rendering of the TypeError that reading the property \<open>key\<close> of \<^verbatim>\<open>null\<close> throws.\<close>

definition typeErrorText :: "string \<Rightarrow> string" where
  "typeErrorText key =
     ''TypeError: Cannot read properties of null (reading '' @ [CHR 0x27] @ key @ [CHR 0x27] @ '')''"

text \<open>
  The body of the loop of \<^verbatim>\<open>validatePromptResponse\<close> over \<^verbatim>\<open>parsed.candidates\<close>, in the order
  of the source. \<open>Inl\<close> is a thrown TypeError (its rendering), \<open>Inr (Some msg)\<close> an early
  return with that message, \<open>Inr None\<close> the end of the loop.
\<close>

fun checkCandidates :: "json list \<Rightarrow> string + string option" where
  "checkCandidates [] = Inr None"
| "checkCandidates (candidate # rest) =
     (if candidate = JNull then Inl (typeErrorText ''id'')
      else if \<not> truthy (property candidate ''id'') \<or> \<not> isString (property candidate ''id'') then
        Inr (Some ''Each candidate must have valid 'id' string'')
      else if \<not> isNumber (property candidate ''score'')
              \<or> asNumber (property candidate ''score'') < 0
              \<or> asNumber (property candidate ''score'') > 100 then
        Inr (Some ''Each candidate must have 'score' number between 0-100'')
      else if \<not> isArray (property candidate ''highlights'') then
        Inr (Some ''Each candidate must have 'highlights' array'')
      else if \<not> truthy (property candidate ''reasoning'')
              \<or> \<not> isString (property candidate ''reasoning'') then
        Inr (Some ''Each candidate must have 'reasoning' string'')
      else if \<not> isArray (property candidate ''matchedSkills'') then
        Inr (Some ''Each candidate must have 'matchedSkills' array'')
      else checkCandidates rest)"

text \<open>
  \<^verbatim>\<open>validatePromptResponse\<close>. \<^verbatim>\<open>JSON.parse\<close> is a parameter: it returns the parsed value or
  throws a SyntaxError, \<open>Inl\<close> of its rendering. Everything thrown inside the function is
  caught by its one \<^verbatim>\<open>catch\<close> clause.
\<close>

definition validatePromptResponse ::
  "(string \<Rightarrow> string + json) \<Rightarrow> string \<Rightarrow> ValidationResult" where
  "validatePromptResponse JSON_parse response =
     (case JSON_parse response of
        Inl syntaxError \<Rightarrow> invalid (''Invalid JSON: '' @ syntaxError)
      | Inr value \<Rightarrow>
          if value = JNull then invalid (''Invalid JSON: '' @ typeErrorText ''candidates'')
          else if \<not> truthy (property value ''candidates'') \<or> \<not> isArray (property value ''candidates'')
          then invalid ''Response must have 'candidates' array''
          else
            (case checkCandidates (asArray (property value ''candidates'')) of
               Inl typeError \<Rightarrow> invalid (''Invalid JSON: '' @ typeError)
             | Inr (Some msg) \<Rightarrow> invalid msg
             | Inr None \<Rightarrow> \<lparr>isValid = True, error = None, parsed = Some value\<rparr>))"

text \<open>
  The static type that \<^verbatim>\<open>ValidationResult\<close> gives to \<^verbatim>\<open>parsed.candidates\<close>: on a value that
  passed the checks above each read below finds a value of the type it expects.
\<close>

definition asAICandidateResponse :: "json \<Rightarrow> AICandidateResponse" where
  "asAICandidateResponse candidate =
     \<lparr>AICandidateResponse.id' = asString (property candidate ''id''),
      score = asNumber (property candidate ''score''),
      highlights = asArray (property candidate ''highlights''),
      reasoning = asString (property candidate ''reasoning''),
      matchedSkills = asArray (property candidate ''matchedSkills'')\<rparr>"

definition parsedCandidates :: "json \<Rightarrow> AICandidateResponse list" where
  "parsedCandidates value = map asAICandidateResponse (asArray (property value ''candidates''))"

text \<open>
  The faults of a response as the specification lists them, for the comparison with the
  function above: an item is at fault when it lacks a string \<^verbatim>\<open>id\<close>, when its \<^verbatim>\<open>score\<close> is
  not a number in \<open>[0, 100]\<close>, when its \<^verbatim>\<open>highlights\<close> is not an array, when its \<^verbatim>\<open>reasoning\<close>
  is missing or not a string, or when its \<^verbatim>\<open>matchedSkills\<close> is not an array; a response is at
  fault when it is not valid JSON, when the parsed value lacks a \<^verbatim>\<open>candidates\<close> array, or when
  some item is at fault. (An item that is \<^verbatim>\<open>null\<close>, or not an object, has no property.)
\<close>

definition statedItemFault :: "json \<Rightarrow> bool" where
  "statedItemFault c =
     (\<not> isString (property c ''id'')
      \<or> \<not> (isNumber (property c ''score'') \<and> 0 \<le> asNumber (property c ''score'')
             \<and> asNumber (property c ''score'') \<le> 100)
      \<or> \<not> isArray (property c ''highlights'')
      \<or> \<not> isString (property c ''reasoning'')
      \<or> \<not> isArray (property c ''matchedSkills''))"

definition statedFault :: "(string \<Rightarrow> string + json) \<Rightarrow> string \<Rightarrow> bool" where
  "statedFault parse response =
     (case parse response of
        Inl syntaxError \<Rightarrow> True
      | Inr value \<Rightarrow>
          \<not> isArray (property value ''candidates'')
          \<or> (\<exists>c \<in> set (asArray (property value ''candidates'')). statedItemFault c))"

text \<open>
  The same list with the two conditions that the code adds: the \<^verbatim>\<open>id\<close> and the \<^verbatim>\<open>reasoning\<close>
  of an item must be strings that are not empty.
\<close>

definition itemFault :: "json \<Rightarrow> bool" where
  "itemFault c =
     (\<not> (isString (property c ''id'') \<and> asString (property c ''id'') \<noteq> [])
      \<or> \<not> (isNumber (property c ''score'') \<and> 0 \<le> asNumber (property c ''score'')
             \<and> asNumber (property c ''score'') \<le> 100)
      \<or> \<not> isArray (property c ''highlights'')
      \<or> \<not> (isString (property c ''reasoning'') \<and> asString (property c ''reasoning'') \<noteq> [])
      \<or> \<not> isArray (property c ''matchedSkills''))"

definition shapeFault :: "(string \<Rightarrow> string + json) \<Rightarrow> string \<Rightarrow> bool" where
  "shapeFault parse response =
     (case parse response of
        Inl syntaxError \<Rightarrow> True
      | Inr value \<Rightarrow>
          \<not> isArray (property value ''candidates'')
          \<or> (\<exists>c \<in> set (asArray (property value ''candidates'')). itemFault c))"

text \<open>Two parsed responses of one item each: the first has an empty \<^verbatim>\<open>id\<close>.\<close>

definition emptyIdResponse :: json where
  "emptyIdResponse =
     JObject [(''candidates'', JArray [JObject
       [(''id'', JString []), (''score'', JNumber 50), (''highlights'', JArray []),
        (''reasoning'', JString ''solid''), (''matchedSkills'', JArray [])]])]"

definition goodResponse :: json where
  "goodResponse =
     JObject [(''candidates'', JArray [JObject
       [(''id'', JString ''c1''), (''score'', JNumber 50), (''highlights'', JArray []),
        (''reasoning'', JString ''solid''), (''matchedSkills'', JArray [])]])]"

section \<open>Scoring one batch\<close>

definition createCandidateScore :: "rat \<Rightarrow> thrown + rat" where
  "createCandidateScore s =
     (if s < 0 \<or> s > 100 then Inl (newError ''Score must be between 0 and 100'') else Inr s)"

text \<open>
  \<^verbatim>\<open>createScoredCandidate\<close>; the first argument is the reading of the clock for the
  timestamp. The spread \<^verbatim>\<open>...originalCandidate\<close> is the extension of the record.
\<close>

definition createScoredCandidate ::
  "nat \<Rightarrow> AICandidateResponse \<Rightarrow> Candidate list \<Rightarrow> thrown + ScoredCandidate" where
  "createScoredCandidate now candidate originalCandidates =
     (case find (\<lambda>c. Candidate.id' c = AICandidateResponse.id' candidate) originalCandidates of
        None \<Rightarrow>
          Inl (newError (''Candidate with ID '' @ AICandidateResponse.id' candidate @ '' not found''))
      | Some originalCandidate \<Rightarrow>
          (case createCandidateScore (AICandidateResponse.score candidate) of
             Inl e \<Rightarrow> Inl e
           | Inr s \<Rightarrow>
               Inr (Candidate.extend originalCandidate
                     (ScoredCandidate.fields s
                        (AICandidateResponse.highlights candidate)
                        (if AICandidateResponse.reasoning candidate = [] then ''No reasoning provided''
                         else AICandidateResponse.reasoning candidate)
                        (AICandidateResponse.matchedSkills candidate)
                        now))))"

text \<open>\<^verbatim>\<open>xs.map(f)\<close> for an \<open>f\<close> that may throw: the first throw ends the traversal.\<close>

fun mapThrowing :: "('a \<Rightarrow> thrown + 'b) \<Rightarrow> 'a list \<Rightarrow> thrown + 'b list" where
  "mapThrowing f [] = Inr []"
| "mapThrowing f (x # xs) =
     (case f x of
        Inl e \<Rightarrow> Inl e
      | Inr y \<Rightarrow> (case mapThrowing f xs of Inl e \<Rightarrow> Inl e | Inr ys \<Rightarrow> Inr (y # ys)))"

text \<open>
  The gateway as one batch sees it: the outcome of the \<open>k\<close>-th invocation of each of its two
  operations. \<^verbatim>\<open>generateObject\<close> resolves with \<^verbatim>\<open>object.candidates\<close>.
\<close>

record gateway =
  generateObject :: "nat \<Rightarrow> AICandidateResponse list outcome"
  generateText :: "nat \<Rightarrow> string outcome"

text \<open>
  Everything outside the program that a run reads: two environment variables, the clock
  (read once), \<^verbatim>\<open>JSON.parse\<close>, and the gateway of each batch, by the index of the batch.
\<close>

record world =
  LLM_PROVIDER :: "string option"
  LLM_MODEL :: "string option"
  now :: nat
  JSON_parse :: "string \<Rightarrow> string + json"
  llm :: "nat \<Rightarrow> gateway"

record LLMProvider =
  name :: string
  model :: string
  maxTokens :: nat
  temperature :: rat

definition getLLMProvider :: "world \<Rightarrow> LLMProvider" where
  "getLLMProvider w =
     \<lparr>name = (case LLM_PROVIDER w of None \<Rightarrow> ''openai'' | Some p \<Rightarrow> if p = [] then ''openai'' else p),
      model = (case LLM_MODEL w of None \<Rightarrow> ''gpt-4.1-mini'' | Some m \<Rightarrow> if m = [] then ''gpt-4.1-mini'' else m),
      maxTokens = 4000,
      temperature = 3 / 10\<rparr>"

datatype aiModel = OpenAI string | Anthropic string

definition getAIModel :: "LLMProvider \<Rightarrow> thrown + aiModel" where
  "getAIModel provider =
     (if LLMProvider.name provider = ''openai'' then Inr (OpenAI (model provider))
      else if LLMProvider.name provider = ''anthropic'' then Inr (Anthropic (model provider))
      else Inl (newError (''Unsupported LLM provider: '' @ LLMProvider.name provider)))"

datatype ScoringStrategy = Structured | Fallback

record PartialWeights =
  skillsMatch :: "rat option"
  experienceLevel :: "rat option"
  education :: "rat option"
  portfolio :: "rat option"
  availability :: "rat option"

text \<open>
  \<^verbatim>\<open>scoreBatchWithStrategy\<close>, with the gateway of the batch as an argument. The two calls
  before the \<^verbatim>\<open>try\<close> block are outside it: what \<^verbatim>\<open>getAIModel\<close> throws rejects the promise
  (\<open>Inl\<close>). Everything thrown inside the block becomes a failure through
  \<^verbatim>\<open>mapErrorToScoringError\<close>. The text of the prompts is not modelled: the job description
  and the weights reach the gateway only through it. A valid result of the validation
  always carries its parsed value; the branch for the other case is the error that the read
  \<^verbatim>\<open>validation.parsed!.candidates\<close> would throw.
\<close>

definition scoreBatchWithStrategy ::
  "world \<Rightarrow> gateway \<Rightarrow> string \<Rightarrow> Candidate list \<Rightarrow> ScoringStrategy \<Rightarrow> PartialWeights option
     \<Rightarrow> (thrown + ScoringResult) \<times> event list" where
  "scoreBatchWithStrategy w gw jobDescription candidates strategy weights =
     (case getAIModel (getLLMProvider w) of
        Inl e \<Rightarrow> (Inl e, [])
      | Inr aiModel \<Rightarrow>
          (case strategy of
             Structured \<Rightarrow>
               (case retryWithBackoff GenerateObject (generateObject gw) maxRetries of
                  (Inl e, trace) \<Rightarrow> (Inr (Failure (mapErrorToScoringError (now w) e)), trace)
                | (Inr object, trace) \<Rightarrow>
                    (case mapThrowing (\<lambda>c. createScoredCandidate (now w) c candidates) object of
                       Inl e \<Rightarrow> (Inr (Failure (mapErrorToScoringError (now w) e)), trace)
                     | Inr scoredCandidates \<Rightarrow> (Inr (Success scoredCandidates), trace)))
           | Fallback \<Rightarrow>
               (case retryWithBackoff GenerateText (generateText gw) maxRetries of
                  (Inl e, trace) \<Rightarrow> (Inr (Failure (mapErrorToScoringError (now w) e)), trace)
                | (Inr text, trace) \<Rightarrow>
                    (let validation = validatePromptResponse (JSON_parse w) text in
                     if \<not> isValid validation then
                       (Inr (Failure (PARSE_ERROR
                          (case error validation of
                             None \<Rightarrow> ''Failed to parse AI response''
                           | Some m \<Rightarrow> if m = [] then ''Failed to parse AI response'' else m)
                          (Some text))), trace)
                     else
                       (case parsed validation of
                          None \<Rightarrow>
                            (Inr (Failure (mapErrorToScoringError (now w)
                               (newError ''Cannot read properties of undefined''))), trace)
                        | Some value \<Rightarrow>
                            (case mapThrowing (\<lambda>c. createScoredCandidate (now w) c candidates)
                                    (parsedCandidates value) of
                               Inl e \<Rightarrow> (Inr (Failure (mapErrorToScoringError (now w) e)), trace)
                             | Inr scoredCandidates \<Rightarrow> (Inr (Success scoredCandidates), trace)))))))"

fun isParseFailure :: "ScoringResult \<Rightarrow> bool" where
  "isParseFailure (Failure e) = (typeOf e = T_PARSE_ERROR)"
| "isParseFailure (Success _) = False"

text \<open>
  \<^verbatim>\<open>processBatch\<close>: the structured strategy, then the constrained-text strategy under the
  condition of the source, then the conversion of the result.
\<close>

definition processBatch ::
  "world \<Rightarrow> Candidate list \<Rightarrow> nat \<Rightarrow> string \<Rightarrow> PartialWeights option
     \<Rightarrow> (thrown + BatchResult) \<times> event list" where
  "processBatch w batch batchIndex jobDescription weights =
     (case scoreBatchWithStrategy w (llm w batchIndex) jobDescription batch Structured weights of
        (Inl e, trace) \<Rightarrow> (Inl e, trace)
      | (Inr result, trace) \<Rightarrow>
          (case (if isParseFailure result then
                   (case scoreBatchWithStrategy w (llm w batchIndex) jobDescription batch
                           Fallback weights of
                      (result', trace') \<Rightarrow> (result', trace @ trace'))
                 else (Inr result, trace)) of
             (Inl e, trace) \<Rightarrow> (Inl e, trace)
           | (Inr (Success d), trace) \<Rightarrow> (Inr (BatchSuccess d), trace)
           | (Inr (Failure e), trace) \<Rightarrow> (Inr (BatchFailure e batchIndex), trace)))"

section \<open>Waves of batches and the final result\<close>

text \<open>
  What \<^verbatim>\<open>Promise.allSettled\<close> and the mapping after it make of the promise of one batch: a
  rejection becomes a failure of that batch.
\<close>

definition settle :: "world \<Rightarrow> nat \<Rightarrow> thrown + BatchResult \<Rightarrow> BatchResult" where
  "settle w batchIndex settled =
     (case settled of
        Inr v \<Rightarrow> v
      | Inl reason \<Rightarrow> BatchFailure (mapErrorToScoringError (now w) reason) batchIndex)"

text \<open>
  The loop of \<^verbatim>\<open>processParallelBatches\<close> over the waves, with the loop variable \<open>i\<close>, the
  array \<open>results\<close> and the trace so far as arguments. The batches of a wave run
  concurrently; the trace lists their events batch after batch, which fixes one of the
  possible interleavings.
\<close>

function waveLoop ::
  "world \<Rightarrow> Candidate list list \<Rightarrow> string \<Rightarrow> PartialWeights option \<Rightarrow> nat \<Rightarrow> BatchResult list
     \<Rightarrow> event list \<Rightarrow> BatchResult list \<times> event list" where
  "waveLoop w batches jobDescription weights i results trace =
     (if i < length batches then
        (let batchGroup = slice batches i (i + maxConcurrentBatches);
             groupResults =
               map (\<lambda>(groupIndex, batch). processBatch w batch (i + groupIndex) jobDescription weights)
                 (enumerate 0 batchGroup);
             processedResults =
               map (\<lambda>(groupIndex, result). settle w (i + groupIndex) (fst result))
                 (enumerate 0 groupResults);
             pause = (if i + maxConcurrentBatches < length batches then [Sleep 1000] else [])
         in waveLoop w batches jobDescription weights (i + maxConcurrentBatches)
              (results @ processedResults) (trace @ concat (map snd groupResults) @ pause))
      else (results, trace))"
  by pat_completeness auto
termination
  by (relation "measure (\<lambda>(w, batches, jobDescription, weights, i, results, trace).
        length batches - i)") (auto simp: maxConcurrentBatches_def)

declare waveLoop.simps [simp del]

fun isSuccess :: "BatchResult \<Rightarrow> bool" where
  "isSuccess (BatchSuccess _) = True"
| "isSuccess (BatchFailure _ _) = False"

fun dataOf :: "BatchResult \<Rightarrow> ScoredCandidate list" where
  "dataOf (BatchSuccess d) = d"
| "dataOf (BatchFailure _ _) = []"

fun errorOf :: "BatchResult \<Rightarrow> ScoringError list" where
  "errorOf (BatchSuccess _) = []"
| "errorOf (BatchFailure e _) = [e]"

text \<open>
  \<^verbatim>\<open>processParallelBatches\<close>: the results of the waves, then the two filters. The second
  filter is followed by \<^verbatim>\<open>map\<close> in the source; on the failures it keeps, \<open>errorOf\<close> is a
  list of one element, so the concatenation is that map.
\<close>

definition processParallelBatches ::
  "world \<Rightarrow> Candidate list list \<Rightarrow> string \<Rightarrow> PartialWeights option
     \<Rightarrow> (ScoredCandidate list \<times> ScoringError list) \<times> event list" where
  "processParallelBatches w batches jobDescription weights =
     (case waveLoop w batches jobDescription weights 0 [] [] of
        (results, trace) \<Rightarrow>
          ((concat (map dataOf (filter isSuccess results)),
            concat (map errorOf (filter (\<lambda>r. \<not> isSuccess r) results))), trace))"

text \<open>
  \<^verbatim>\<open>sortAndLimitCandidates\<close>. \<^verbatim>\<open>Array.prototype.sort\<close> is stable, and the comparator
  \<^verbatim>\<open>b.score - a.score\<close> orders by descending score; the stable sort of HOL by the negated
  score is that order.
\<close>

definition sortAndLimitCandidates :: "ScoredCandidate list \<Rightarrow> nat \<Rightarrow> ScoredCandidate list" where
  "sortAndLimitCandidates candidates maxResults =
     take maxResults (sort_key (\<lambda>c. - ScoredCandidate.score c) candidates)"

record options =
  weights :: "PartialWeights option"
  batchSize :: "nat option"
  maxResults :: "nat option"

text \<open>
  \<^verbatim>\<open>scoreCandidates\<close>. The only statement of its \<^verbatim>\<open>try\<close> block that can throw is
  \<^verbatim>\<open>createBatches\<close>.
\<close>

definition scoreCandidates ::
  "world \<Rightarrow> string \<Rightarrow> Candidate list \<Rightarrow> options \<Rightarrow> ScoringResult \<times> event list" where
  "scoreCandidates w jobDescription candidates opts =
     (let batchSize' = (case batchSize opts of None \<Rightarrow> defaultBatchSize | Some b \<Rightarrow> b);
          maxResults' = (case maxResults opts of None \<Rightarrow> 30 | Some m \<Rightarrow> m)
      in if candidates = [] then (Success [], [])
         else
           (case createBatches candidates batchSize' of
              Inl e \<Rightarrow> (Failure (mapErrorToScoringError (now w) e), [])
            | Inr batches \<Rightarrow>
                (case processParallelBatches w batches jobDescription (weights opts) of
                   ((scoredCandidates, errors), trace) \<Rightarrow>
                     if scoredCandidates = [] then
                       (Failure (case errors of
                                   [] \<Rightarrow> UNKNOWN_ERROR ''No candidates could be scored''
                                 | e # _ \<Rightarrow> e), trace)
                     else (Success (sortAndLimitCandidates scoredCandidates maxResults'), trace))))"

section \<open>The request boundary\<close>

text \<open>
  The body of a request to \<^verbatim>\<open>POST /api/score\<close>, with fields of the types that
  \<^verbatim>\<open>ScoreRequestBodySchema\<close> expects (a body with a field of another type is rejected by
  the schema and is not modelled). The length of a string is its number of characters.
\<close>

record ScoreRequestBody =
  jobDescription :: string
  maxResults :: "rat option"
  weights :: "PartialWeights option"

text \<open>The parsed body: \<^verbatim>\<open>maxResults\<close> is an integer and has its default.\<close>

record ScoreRequestData =
  jobDescription :: string
  maxResults :: nat
  weights :: "PartialWeights option"

definition inUnitInterval :: "rat option \<Rightarrow> bool" where
  "inUnitInterval x = (case x of None \<Rightarrow> True | Some v \<Rightarrow> 0 \<le> v \<and> v \<le> 1)"

text \<open>
  \<^verbatim>\<open>validateRequestBody\<close>: the checks of \<^verbatim>\<open>ScoreRequestBodySchema\<close> in the order of its keys.
  \<open>Inl\<close> is the path of the first issue (the message that follows it in the source is the
  wording of the schema library and is left out).
\<close>

definition validateRequestBody :: "ScoreRequestBody \<Rightarrow> string + ScoreRequestData" where
  "validateRequestBody body =
     (if length (ScoreRequestBody.jobDescription body) < 10
         \<or> length (ScoreRequestBody.jobDescription body) > 200 then Inl ''jobDescription''
      else if (case ScoreRequestBody.maxResults body of
                 None \<Rightarrow> False
               | Some m \<Rightarrow> rat_of_int \<lfloor>m\<rfloor> \<noteq> m \<or> m < 1 \<or> m > 100) then Inl ''maxResults''
      else
        (case ScoreRequestBody.weights body of
           None \<Rightarrow>
             Inr \<lparr>jobDescription = ScoreRequestBody.jobDescription body,
                  maxResults = (case ScoreRequestBody.maxResults body of
                                  None \<Rightarrow> 30 | Some m \<Rightarrow> nat \<lfloor>m\<rfloor>),
                  weights = None\<rparr>
         | Some ws \<Rightarrow>
             if \<not> inUnitInterval (skillsMatch ws) then Inl ''weights.skillsMatch''
             else if \<not> inUnitInterval (experienceLevel ws) then Inl ''weights.experienceLevel''
             else if \<not> inUnitInterval (education ws) then Inl ''weights.education''
             else if \<not> inUnitInterval (portfolio ws) then Inl ''weights.portfolio''
             else if \<not> inUnitInterval (availability ws) then Inl ''weights.availability''
             else
               Inr \<lparr>jobDescription = ScoreRequestBody.jobDescription body,
                    maxResults = (case ScoreRequestBody.maxResults body of
                                    None \<Rightarrow> 30 | Some m \<Rightarrow> nat \<lfloor>m\<rfloor>),
                    weights = Some ws\<rparr>))"

text \<open>The operator \<^verbatim>\<open>??\<close>: the default replaces an absent value only.\<close>

definition orDefault :: "rat option \<Rightarrow> rat \<Rightarrow> rat option" where
  "orDefault x d = (case x of None \<Rightarrow> Some d | Some v \<Rightarrow> Some v)"

text \<open>The object \<^verbatim>\<open>scoringOptions\<close> that \<^verbatim>\<open>POST\<close> builds from the parsed body.\<close>

definition scoringOptions :: "ScoreRequestData \<Rightarrow> options" where
  "scoringOptions d =
     \<lparr>options.weights =
        (case ScoreRequestData.weights d of
           None \<Rightarrow> None
         | Some ws \<Rightarrow>
             Some \<lparr>skillsMatch = orDefault (skillsMatch ws) (4 / 10),
                   experienceLevel = orDefault (experienceLevel ws) (25 / 100),
                   education = orDefault (education ws) (15 / 100),
                   portfolio = orDefault (portfolio ws) (1 / 10),
                   availability = orDefault (availability ws) (1 / 10)\<rparr>),
      batchSize = None,
      maxResults = Some (ScoreRequestData.maxResults d)\<rparr>"

text \<open>
  The response of \<^verbatim>\<open>POST\<close>: an error with its status, or the ranked candidates with the
  number of candidates processed.
\<close>

datatype response = ErrorResponse ScoringError nat | ScoreResponse "ScoredCandidate list" nat

fun statusMap :: "errorType \<Rightarrow> nat" where
  "statusMap T_VALIDATION_ERROR = 400"
| "statusMap T_RATE_LIMIT = 429"
| "statusMap T_PARSE_ERROR = 502"
| "statusMap T_NETWORK_ERROR = 503"
| "statusMap T_QUOTA_EXCEEDED = 402"
| "statusMap T_UNKNOWN_ERROR = 500"

definition createErrorResponse :: "ScoringError \<Rightarrow> response" where
  "createErrorResponse e = ErrorResponse e (statusMap (typeOf e))"

text \<open>
  \<^verbatim>\<open>POST\<close>, from the validation of a body that was read to the response; the third argument
  is what \<^verbatim>\<open>getCandidates\<close> returned.
\<close>

definition POST :: "world \<Rightarrow> ScoreRequestBody \<Rightarrow> Candidate list \<Rightarrow> response \<times> event list" where
  "POST w body candidates =
     (case validateRequestBody body of
        Inl err \<Rightarrow> (createErrorResponse (VALIDATION_ERROR ''body'' err), [])
      | Inr d \<Rightarrow>
          if candidates = [] then (ScoreResponse [] 0, [])
          else
            (case scoreCandidates w (ScoreRequestData.jobDescription d) candidates
                    (scoringOptions d) of
               (Failure e, trace) \<Rightarrow> (createErrorResponse e, trace)
             | (Success ranked, trace) \<Rightarrow> (ScoreResponse ranked (length candidates), trace)))"

text \<open>
  \<^verbatim>\<open>ScoringWeightsSchema\<close> of \<^verbatim>\<open>schemas.ts\<close>, on the five fractions of a complete set of
  weights: each lies in \<open>[0, 1]\<close>, and the refinement asks that their sum is \<open>1\<close> within
  \<open>0.001\<close> (the sum is of rationals here, of floating-point numbers in the source). Nothing
  in the repository calls this schema.
\<close>

definition ScoringWeightsSchema :: "rat \<Rightarrow> rat \<Rightarrow> rat \<Rightarrow> rat \<Rightarrow> rat \<Rightarrow> bool" where
  "ScoringWeightsSchema a b c d e =
     (0 \<le> a \<and> a \<le> 1 \<and> 0 \<le> b \<and> b \<le> 1 \<and> 0 \<le> c \<and> c \<le> 1 \<and> 0 \<le> d \<and> d \<le> 1
      \<and> 0 \<le> e \<and> e \<le> 1 \<and> \<bar>a + b + c + d + e - 1\<bar> < 1 / 1000)"

section \<open>Readings and examples used in the statements\<close>

text \<open>
  The items of the response that a strategy maps to scored candidates, when it gets that
  far: what \<^verbatim>\<open>generateObject\<close> resolved with after the retries, or the items of the text that
  passed the validation.
\<close>

definition responseItems :: "world \<Rightarrow> gateway \<Rightarrow> ScoringStrategy \<Rightarrow> AICandidateResponse list option" where
  "responseItems w gw strategy =
     (case strategy of
        Structured \<Rightarrow>
          (case fst (retryWithBackoff GenerateObject (generateObject gw) maxRetries) of
             Inl e \<Rightarrow> None
           | Inr object \<Rightarrow> Some object)
      | Fallback \<Rightarrow>
          (case fst (retryWithBackoff GenerateText (generateText gw) maxRetries) of
             Inl e \<Rightarrow> None
           | Inr text \<Rightarrow>
               if isValid (validatePromptResponse (JSON_parse w) text)
               then map_option parsedCandidates (parsed (validatePromptResponse (JSON_parse w) text))
               else None))"

text \<open>
  A small world for the examples: two candidates; a gateway whose structured response names
  a candidate that is not in the batch; one whose structured call always fails with a JSON
  syntax error and whose text is accepted; one that is always rate limited.
\<close>

definition alice :: Candidate where
  "alice = \<lparr>Candidate.id' = ''c1'', name = ''Alice'', email = ''alice@example.org'',
     experience = 7, location = ''Lyon'', bio = ''Backend engineer''\<rparr>"

definition bob :: Candidate where
  "bob = \<lparr>Candidate.id' = ''c2'', name = ''Bob'', email = ''bob@example.org'',
     experience = 3, location = ''Porto'', bio = ''Frontend engineer''\<rparr>"

definition aliceItem :: AICandidateResponse where
  "aliceItem = \<lparr>AICandidateResponse.id' = ''c1'', score = 90, highlights = [JString ''Go''],
     reasoning = ''Strong match'', matchedSkills = [JString ''Go'']\<rparr>"

definition strayItem :: AICandidateResponse where
  "strayItem = \<lparr>AICandidateResponse.id' = ''zz'', score = 80, highlights = [JString ''Rust''],
     reasoning = ''Good match'', matchedSkills = []\<rparr>"

definition jsonSyntaxError :: thrown where
  "jsonSyntaxError = Object \<lparr>status = None, retryAfter = None,
     message = Some ''Unexpected token in JSON'', code = None, name = Some ''SyntaxError'',
     issues = None, rawResponse = None\<rparr>"

definition tooManyRequests :: thrown where
  "tooManyRequests = Object \<lparr>status = Some 429, retryAfter = Some 30, message = None,
     code = None, name = None, issues = None, rawResponse = None\<rparr>"

definition strayGateway :: gateway where
  "strayGateway = \<lparr>generateObject = (\<lambda>k. Resolves [aliceItem, strayItem]),
     generateText = (\<lambda>k. Resolves ''text'')\<rparr>"

definition brokenGateway :: gateway where
  "brokenGateway = \<lparr>generateObject = (\<lambda>k. Rejects jsonSyntaxError),
     generateText = (\<lambda>k. Resolves ''text'')\<rparr>"

definition limitedGateway :: gateway where
  "limitedGateway = \<lparr>generateObject = (\<lambda>k. Rejects tooManyRequests),
     generateText = (\<lambda>k. Resolves ''text'')\<rparr>"

definition sampleWorld :: world where
  "sampleWorld = \<lparr>LLM_PROVIDER = None, LLM_MODEL = None, now = 0,
     JSON_parse = (\<lambda>r. Inr goodResponse),
     llm = (\<lambda>i. if i = 0 then strayGateway else if i = 1 then brokenGateway else limitedGateway)\<rparr>"

text \<open>
  The outcome of every batch, in the order of the batches: what \<open>processBatch\<close> returns for
  the batch and its index, settled.
\<close>

definition batchOutcomes ::
  "world \<Rightarrow> Candidate list list \<Rightarrow> string \<Rightarrow> PartialWeights option \<Rightarrow> BatchResult list" where
  "batchOutcomes w batches jd ws =
     map (\<lambda>(k, batch). settle w k (fst (processBatch w batch k jd ws))) (enumerate 0 batches)"

text \<open>The batch size and the limit that \<open>scoreCandidates\<close> takes from its options.\<close>

definition batchSizeOf :: "options \<Rightarrow> nat" where
  "batchSizeOf opts = (case options.batchSize opts of None \<Rightarrow> defaultBatchSize | Some b \<Rightarrow> b)"

definition maxResultsOf :: "options \<Rightarrow> nat" where
  "maxResultsOf opts = (case options.maxResults opts of None \<Rightarrow> 30 | Some m \<Rightarrow> m)"

text \<open>
  A third candidate and two more worlds: in the first the batch of index \<open>0\<close> is scored and
  every other batch is rate limited; in the second the batch of index \<open>0\<close> is rate limited
  and every other batch gets a response for candidates it does not hold.
\<close>

definition carol :: Candidate where
  "carol = \<lparr>Candidate.id' = ''c3'', name = ''Carol'', email = ''carol@example.org'',
     experience = 5, location = ''Turin'', bio = ''Data engineer''\<rparr>"

definition bobItem :: AICandidateResponse where
  "bobItem = \<lparr>AICandidateResponse.id' = ''c2'', score = 95, highlights = [JString ''React''],
     reasoning = ''Excellent match'', matchedSkills = [JString ''React'']\<rparr>"

definition pairGateway :: gateway where
  "pairGateway = \<lparr>generateObject = (\<lambda>k. Resolves [aliceItem, bobItem]),
     generateText = (\<lambda>k. Resolves ''text'')\<rparr>"

definition mixedWorld :: world where
  "mixedWorld = \<lparr>LLM_PROVIDER = None, LLM_MODEL = None, now = 0,
     JSON_parse = (\<lambda>r. Inr goodResponse),
     llm = (\<lambda>i. if i = 0 then pairGateway else limitedGateway)\<rparr>"

definition downWorld :: world where
  "downWorld = \<lparr>LLM_PROVIDER = None, LLM_MODEL = None, now = 0,
     JSON_parse = (\<lambda>r. Inr goodResponse),
     llm = (\<lambda>i. if i = 0 then limitedGateway else strayGateway)\<rparr>"

text \<open>The candidate \<open>c\<close> with the scoring fields of \<open>item\<close>, scored at time \<open>0\<close>.\<close>

definition scored :: "Candidate \<Rightarrow> AICandidateResponse \<Rightarrow> ScoredCandidate" where
  "scored c item =
     Candidate.extend c
       (ScoredCandidate.fields (AICandidateResponse.score item) (AICandidateResponse.highlights item)
          (AICandidateResponse.reasoning item) (AICandidateResponse.matchedSkills item) 0)"

text \<open>A world in which every structured response is an empty list of items.\<close>

definition silentGateway :: gateway where
  "silentGateway = \<lparr>generateObject = (\<lambda>k. Resolves []),
     generateText = (\<lambda>k. Resolves ''text'')\<rparr>"

definition silentWorld :: world where
  "silentWorld = \<lparr>LLM_PROVIDER = None, LLM_MODEL = None, now = 0,
     JSON_parse = (\<lambda>r. Inr goodResponse), llm = (\<lambda>i. silentGateway)\<rparr>"

text \<open>Options with a batch size of two and the default limit.\<close>

definition twoByTwo :: options where
  "twoByTwo = \<lparr>options.weights = None, batchSize = Some 2, maxResults = None\<rparr>"

text \<open>A set of weights is complete when it has all five fractions.\<close>

definition complete :: "PartialWeights \<Rightarrow> bool" where
  "complete ws =
     (skillsMatch ws \<noteq> None \<and> experienceLevel ws \<noteq> None \<and> education ws \<noteq> None
      \<and> portfolio ws \<noteq> None \<and> availability ws \<noteq> None)"

text \<open>A request with a complete set of weights whose sum is \<open>0.8\<close>.\<close>

definition lowWeights :: PartialWeights where
  "lowWeights = \<lparr>skillsMatch = Some (2 / 10), experienceLevel = Some (2 / 10),
     education = Some (2 / 10), portfolio = Some (1 / 10), availability = Some (1 / 10)\<rparr>"

definition lowWeightsBody :: ScoreRequestBody where
  "lowWeightsBody = \<lparr>ScoreRequestBody.jobDescription = ''Senior Go engineer'', maxResults = None,
     weights = Some lowWeights\<rparr>"

section \<open>Properties of the batches\<close>

text \<open>The ceiling of a quotient of natural numbers, by integer division.\<close>

lemma ceiling_quotient:
  assumes "0 < b"
  shows "nat \<lceil>rat_of_nat n / rat_of_nat b\<rceil> = (n + b - 1) div b"
proof -
  define q where "q = (n + b - 1) div b"
  have up: "q * b \<le> n + b - 1" unfolding q_def by simp
  have "n + b - 1 < b + q * b"
    unfolding q_def using assms by (rule dividend_less_div_times)
  with assms have low: "n \<le> q * b" by simp
  have bpos: "0 < rat_of_nat b" using assms by simp
  from up assms have "q * b < n + b" by simp
  then have "rat_of_nat (q * b) < rat_of_nat (n + b)" by (simp only: of_nat_less_iff)
  then have "(rat_of_nat q - 1) * rat_of_nat b < rat_of_nat n" by (simp add: algebra_simps)
  with bpos have lo: "rat_of_int (int q) - 1 < rat_of_nat n / rat_of_nat b"
    by (simp add: pos_less_divide_eq)
  from low have "rat_of_nat n \<le> rat_of_nat (q * b)" by (simp only: of_nat_le_iff)
  with bpos have hi: "rat_of_nat n / rat_of_nat b \<le> rat_of_int (int q)"
    by (simp add: pos_divide_le_eq)
  from lo hi have "\<lceil>rat_of_nat n / rat_of_nat b\<rceil> = int q" by (rule ceiling_unique)
  then show ?thesis by (simp add: q_def)
qed

lemma slice_length: "length (slice xs a b) = min b (length xs) - a"
  by (simp add: slice_def)

lemma concat_slices:
  "concat (map (\<lambda>i. slice xs (i * b) ((i + 1) * b)) [0..<n]) = take (n * b) xs"
proof (induction n)
  case 0
  then show ?case by simp
next
  case (Suc n)
  have "take (n * b) (take (n * b + b) xs) @ drop (n * b) (take (n * b + b) xs)
      = take (n * b + b) xs"
    by (rule append_take_drop_id)
  moreover have "take (n * b) (take (n * b + b) xs) = take (n * b) xs"
    by (simp add: min_def)
  ultimately have "take (n * b) xs @ slice xs (n * b) ((n + 1) * b) = take (Suc n * b) xs"
    by (simp add: slice_def add.commute)
  with Suc show ?case by simp
qed

lemma batches_cover:
  assumes "0 < b"
  shows "length xs \<le> ((length xs + b - 1) div b) * b"
proof -
  have "length xs + b - 1 < b + ((length xs + b - 1) div b) * b"
    using assms by (rule dividend_less_div_times)
  with assms show ?thesis by simp
qed

lemma slice_nth:
  "i < b - a \<Longrightarrow> a + i < length xs \<Longrightarrow> slice xs a b ! i = xs ! (a + i)"
  by (simp add: slice_def)

text \<open>
  Claim C3. For every pool \<open>items\<close> and every batch size \<open>b > 0\<close>, \<open>createBatches\<close> returns
  (it does not throw) exactly \<open>\<lceil>length items / b\<rceil>\<close> batches; no batch is empty or longer
  than \<open>b\<close>, and every batch but the last has exactly \<open>b\<close> elements; the concatenation of
  the batches in order is the pool itself; and the element at index \<open>j\<close> of the pool is the
  element at index \<open>j mod b\<close> of batch \<open>j div b\<close>, so every candidate sits in exactly one
  batch, none is duplicated and none is missing.
\<close>

theorem createBatches_partition:
  assumes "0 < b"
  shows "\<exists>batches. createBatches items b = Inr batches
      \<and> length batches = nat \<lceil>rat_of_nat (length items) / rat_of_nat b\<rceil>
      \<and> (\<forall>i < length batches. batches ! i \<noteq> [] \<and> length (batches ! i) \<le> b
            \<and> (Suc i < length batches \<longrightarrow> length (batches ! i) = b))
      \<and> concat batches = items
      \<and> (\<forall>j < length items.
            batches ! (j div b) ! (j mod b) = items ! j)"
proof -
  define n where "n = (length items + b - 1) div b"
  define batches where
    "batches = map (\<lambda>i. slice items (i * b) ((i + 1) * b)) [0..<n]"
  have n_eq: "nat \<lceil>rat_of_nat (length items) / rat_of_nat b\<rceil> = n"
    unfolding n_def using assms by (rule ceiling_quotient)
  have cb: "createBatches items b = Inr batches"
    using assms by (simp add: createBatches_def n_eq batches_def)
  have len: "length batches = n" by (simp add: batches_def)
  have cover: "length items \<le> n * b"
    unfolding n_def using assms by (rule batches_cover)
  have upper: "n * b < length items + b"
  proof -
    have "n * b \<le> length items + b - 1" unfolding n_def by simp
    with assms show ?thesis by simp
  qed
  have nth: "batches ! i = slice items (i * b) ((i + 1) * b)" if "i < n" for i
    using that by (simp add: batches_def)
  have sizes: "batches ! i \<noteq> [] \<and> length (batches ! i) \<le> b
      \<and> (Suc i < length batches \<longrightarrow> length (batches ! i) = b)" if "i < n" for i
  proof -
    from that have "Suc i \<le> n" by simp
    then have "Suc i * b \<le> n * b" by (rule mult_le_mono1)
    with upper have start: "i * b < length items" by simp
    have l: "length (batches ! i) = min ((i + 1) * b) (length items) - i * b"
      using that by (simp add: nth slice_length)
    have full: "length (batches ! i) = b" if "Suc i < n"
    proof -
      from that have "Suc (Suc i) \<le> n" by simp
      then have "Suc (Suc i) * b \<le> n * b" by (rule mult_le_mono1)
      with upper have "(i + 1) * b < length items" by simp
      with l show ?thesis by simp
    qed
    from l start assms have "0 < length (batches ! i)" by (simp add: min_def)
    moreover have "min ((i + 1) * b) (length items) \<le> i * b + b" by simp
    with l have "length (batches ! i) \<le> b" by linarith
    ultimately show ?thesis using full len by auto
  qed
  have "concat batches = take (n * b) items"
    unfolding batches_def by (rule concat_slices)
  with cover have cc: "concat batches = items" by simp
  have pos: "batches ! (j div b) ! (j mod b) = items ! j" if "j < length items" for j
  proof -
    have "j div b < n"
    proof (rule ccontr)
      assume "\<not> j div b < n"
      then have "n \<le> j div b" by simp
      then have "n * b \<le> j div b * b" by (rule mult_le_mono1)
      also have "\<dots> \<le> j" by simp
      finally show False using cover that by simp
    qed
    then have "batches ! (j div b) ! (j mod b)
        = slice items (j div b * b) ((j div b + 1) * b) ! (j mod b)"
      by (simp add: nth)
    also have "\<dots> = items ! (j div b * b + j mod b)"
      using assms that by (intro slice_nth) simp_all
    also have "\<dots> = items ! j" by simp
    finally show ?thesis .
  qed
  from cb n_eq len sizes cc pos show ?thesis by auto
qed

theorem createBatches_partition_witness:
  "(0::nat) < 2
   \<and> createBatches [1, 2, 3, 4, 5 :: nat] 2 = Inr [[1, 2], [3, 4], [5]]
   \<and> (\<exists>batches. createBatches [1, 2, 3, 4, 5 :: nat] 2 = Inr batches
         \<and> length batches = 3 \<and> concat batches = [1, 2, 3, 4, 5])"
proof -
  have h: "(0::nat) < 2" by simp
  have c: "nat \<lceil>rat_of_nat (length [1, 2, 3, 4, 5 :: nat]) / rat_of_nat 2\<rceil> = 3"
    using ceiling_quotient [of 2 5] by simp
  from createBatches_partition [OF h, of "[1, 2, 3, 4, 5 :: nat]"] c
  have "\<exists>batches. createBatches [1, 2, 3, 4, 5 :: nat] 2 = Inr batches
         \<and> length batches = 3 \<and> concat batches = [1, 2, 3, 4, 5]"
    by auto
  moreover have "[0..<3] = [0, 1, 2]" by (simp add: upt_rec)
  then have "createBatches [1, 2, 3, 4, 5 :: nat] 2 = Inr [[1, 2], [3, 4], [5]]"
    using c by (simp add: createBatches_def slice_def)
  ultimately show ?thesis using h by blast
qed

section \<open>Properties of the retry controller\<close>

text \<open>The two pausing branches of the loop do the same.\<close>

lemma retryLoop_unfold:
  "retryLoop call operation retries attempt lastError trace =
     (if attempt \<le> retries then
        (case operation attempt of
           Resolves v \<Rightarrow> (Inr v, trace @ [Invoke call])
         | Rejects err \<Rightarrow>
             retryLoop call operation retries (attempt + 1) (Some err)
               (trace @ Invoke call # (if attempt < retries then [Sleep (calculateDelay attempt)] else [])))
      else (Inl (case lastError of None \<Rightarrow> undefinedValue | Some e \<Rightarrow> e), trace))"
  by (subst retryLoop.simps) (simp split: outcome.splits)

lemma pauses_step: "a < n \<Longrightarrow> pauses call a n = Invoke call # Sleep (calculateDelay a) # pauses call (Suc a) n"
  by (simp add: pauses_def upt_conv_Cons)

lemma pauses_empty: "pauses call n n = []"
  by (simp add: pauses_def)

lemma retryLoop_resolves:
  "a \<le> n \<Longrightarrow> n \<le> retries \<Longrightarrow> operation n = Resolves v \<Longrightarrow>
   (\<And>k. a \<le> k \<Longrightarrow> k < n \<Longrightarrow> \<exists>e. operation k = Rejects e) \<Longrightarrow>
   retryLoop call operation retries a lastError trace = (Inr v, trace @ pauses call a n @ [Invoke call])"
proof (induction "n - a" arbitrary: a lastError trace)
  case 0
  then have "a = n" by simp
  with 0 show ?case by (subst retryLoop_unfold) (simp add: pauses_empty)
next
  case (Suc d)
  then have lt: "a < n" by simp
  with Suc.prems obtain e where e: "operation a = Rejects e" by blast
  have "retryLoop call operation retries (Suc a) (Some e) (trace @ [Invoke call, Sleep (calculateDelay a)])
      = (Inr v, (trace @ [Invoke call, Sleep (calculateDelay a)]) @ pauses call (Suc a) n @ [Invoke call])"
    using Suc.prems Suc.hyps(2) lt by (intro Suc.hyps(1)) auto
  with lt e Suc.prems(2) show ?case
    by (subst retryLoop_unfold) (simp add: pauses_step)
qed

lemma retryLoop_exhausted:
  "a \<le> retries \<Longrightarrow> operation retries = Rejects e \<Longrightarrow>
   (\<And>k. a \<le> k \<Longrightarrow> k < retries \<Longrightarrow> \<exists>e'. operation k = Rejects e') \<Longrightarrow>
   retryLoop call operation retries a lastError trace = (Inl e, trace @ pauses call a retries @ [Invoke call])"
proof (induction "retries - a" arbitrary: a lastError trace)
  case 0
  then have "a = retries" by simp
  with 0 show ?case
    by (subst retryLoop_unfold, simp add: pauses_empty, subst retryLoop_unfold, simp)
next
  case (Suc d)
  then have lt: "a < retries" by simp
  with Suc.prems obtain e' where e: "operation a = Rejects e'" by blast
  have "retryLoop call operation retries (Suc a) (Some e') (trace @ [Invoke call, Sleep (calculateDelay a)])
      = (Inl e, (trace @ [Invoke call, Sleep (calculateDelay a)]) @ pauses call (Suc a) retries @ [Invoke call])"
    using Suc.prems Suc.hyps(2) lt by (intro Suc.hyps(1)) auto
  with lt e show ?case
    by (subst retryLoop_unfold) (simp add: pauses_step)
qed

lemma invocations_append: "invocations (xs @ ys) = invocations xs + invocations ys"
  by (induction xs rule: invocations.induct) auto

lemma retryLoop_invocations:
  "invocations (snd (retryLoop call operation retries a lastError trace))
     \<le> invocations trace + (Suc retries - a)"
proof (induction call operation retries a lastError trace rule: retryLoop.induct)
  case (1 call operation retries attempt lastError trace)
  show ?case
  proof (cases "attempt \<le> retries")
    case False
    then show ?thesis by (subst retryLoop_unfold) simp
  next
    case True
    show ?thesis
    proof (cases "operation attempt")
      case (Resolves v)
      with True show ?thesis by (subst retryLoop_unfold) (simp add: invocations_append)
    next
      case (Rejects err)
      show ?thesis
      proof (cases "attempt < retries")
        case lt: True
        from "1.IH"(2)[OF True Rejects _ lt] "1.IH"(1)[OF True Rejects]
        have "invocations (snd (retryLoop call operation retries (attempt + 1) (Some err)
                 (trace @ [Invoke call, Sleep (calculateDelay attempt)])))
              \<le> invocations (trace @ [Invoke call, Sleep (calculateDelay attempt)]) + (Suc retries - (attempt + 1))"
          by blast
        with True Rejects lt show ?thesis
          by (subst retryLoop_unfold) (simp add: invocations_append)
      next
        case ge: False
        from "1.IH"(3)[OF True Rejects _ ge]
        have "invocations (snd (retryLoop call operation retries (attempt + 1) (Some err)
                 (trace @ [Invoke call])))
              \<le> invocations (trace @ [Invoke call]) + (Suc retries - (attempt + 1))"
          using ge True by auto
        with True Rejects ge show ?thesis
          by (subst retryLoop_unfold) (simp add: invocations_append)
      qed
    qed
  qed
qed

lemma delaysBefore_pauses:
  "delaysBefore p (pauses call a n @ [Invoke call]) = p # map (\<lambda>k. Some (calculateDelay k)) [a..<n]"
proof (induction "n - a" arbitrary: a p)
  case 0
  then show ?case by (simp add: pauses_def)
next
  case (Suc d)
  then have lt: "a < n" by simp
  with Suc show ?case by (simp add: pauses_step upt_conv_Cons)
qed

lemma invocations_pauses: "invocations (pauses call a n) = n - a"
proof (induction "n - a" arbitrary: a)
  case 0
  then show ?case by (simp add: pauses_def)
next
  case (Suc d)
  then have lt: "a < n" by simp
  with Suc show ?case by (simp add: pauses_step)
qed

text \<open>
  Claim C2, as the code has it. For every operation, \<open>retryWithBackoff\<close> with the configured
  three retries invokes it at most four times. When its invocation number \<open>n \<le> 3\<close> is the
  first to resolve, the controller returns that value and its trace is \<open>backoffTrace n\<close>:
  the successful invocation is the last event, so a success is never retried. When all
  four invocations reject, it throws the error of the last one, unchanged, after the trace
  \<open>backoffTrace 3\<close>. In such a trace the first invocation follows no pause, and the pause
  computed after the failed attempt \<open>k\<close> (0-indexed), that is the pause before attempt
  \<open>k + 1\<close>, is \<open>min (1000 * 2 ^ k) 10000\<close> milliseconds; no pause follows the last attempt.
\<close>

theorem retryWithBackoff_schedule:
  fixes operation :: "nat \<Rightarrow> 'a outcome"
  shows "invocations (snd (retryWithBackoff call operation maxRetries)) \<le> 4
    \<and> (\<forall>n v. n \<le> maxRetries \<and> operation n = Resolves v
            \<and> (\<forall>k<n. \<exists>e. operation k = Rejects e)
          \<longrightarrow> retryWithBackoff call operation maxRetries = (Inr v, backoffTrace call n))
    \<and> (\<forall>e. operation maxRetries = Rejects e
            \<and> (\<forall>k<maxRetries. \<exists>e'. operation k = Rejects e')
          \<longrightarrow> retryWithBackoff call operation maxRetries = (Inl e, backoffTrace call maxRetries))
    \<and> (\<forall>n. invocations (backoffTrace call n) = n + 1
          \<and> delaysBefore None (backoffTrace call n)
              = None # map (\<lambda>k. Some (min (1000 * 2 ^ k) 10000)) [0..<n])"
proof -
  have bound: "invocations (snd (retryWithBackoff call operation maxRetries)) \<le> 4"
    using retryLoop_invocations [of call operation maxRetries 0 None "[]"]
    by (simp add: retryWithBackoff_def maxRetries_def)
  have ok: "retryWithBackoff call operation maxRetries = (Inr v, backoffTrace call n)"
    if "n \<le> maxRetries" "operation n = Resolves v" "\<forall>k<n. \<exists>e. operation k = Rejects e" for n v
    using retryLoop_resolves [of 0 n maxRetries operation v call None "[]"] that
    by (simp add: retryWithBackoff_def backoffTrace_def)
  have ex: "retryWithBackoff call operation maxRetries = (Inl e, backoffTrace call maxRetries)"
    if "operation maxRetries = Rejects e" "\<forall>k<maxRetries. \<exists>e'. operation k = Rejects e'" for e
    using retryLoop_exhausted [of 0 maxRetries operation e call None "[]"] that
    by (simp add: retryWithBackoff_def backoffTrace_def)
  have sh: "invocations (backoffTrace call n) = n + 1
      \<and> delaysBefore None (backoffTrace call n)
          = None # map (\<lambda>k. Some (min (1000 * 2 ^ k) 10000)) [0..<n]" for n
    by (simp add: backoffTrace_def delaysBefore_pauses invocations_append invocations_pauses
        calculateDelay_def baseDelay_def maxDelay_def)
  from bound ok ex sh show ?thesis by blast
qed

theorem retryWithBackoff_schedule_witness:
  "retryWithBackoff GenerateText
      (\<lambda>k::nat. if k < 2 then Rejects (newError ''busy'') else Resolves (7 :: nat)) maxRetries
     = (Inr 7, [Invoke GenerateText, Sleep 1000, Invoke GenerateText, Sleep 2000,
                Invoke GenerateText])
   \<and> retryWithBackoff GenerateText (\<lambda>k::nat. Rejects (newError ''busy'') :: nat outcome) maxRetries
     = (Inl (newError ''busy''),
        [Invoke GenerateText, Sleep 1000, Invoke GenerateText, Sleep 2000,
         Invoke GenerateText, Sleep 4000, Invoke GenerateText])"
proof -
  let ?op = "\<lambda>k::nat. if k < 2 then Rejects (newError ''busy'') else Resolves (7 :: nat)"
  let ?never = "\<lambda>k::nat. Rejects (newError ''busy'') :: nat outcome"
  have t2: "backoffTrace GenerateText 2
      = [Invoke GenerateText, Sleep 1000, Invoke GenerateText, Sleep 2000, Invoke GenerateText]"
    by (simp add: backoffTrace_def pauses_def upt_rec calculateDelay_def baseDelay_def maxDelay_def)
  have t3: "backoffTrace GenerateText maxRetries
      = [Invoke GenerateText, Sleep 1000, Invoke GenerateText, Sleep 2000,
         Invoke GenerateText, Sleep 4000, Invoke GenerateText]"
    by (simp add: backoffTrace_def pauses_def upt_rec calculateDelay_def baseDelay_def maxDelay_def
        maxRetries_def)
  have "(2::nat) \<le> maxRetries \<and> ?op 2 = Resolves 7 \<and> (\<forall>k<2. \<exists>e. ?op k = Rejects e)"
    by (simp add: maxRetries_def)
  with retryWithBackoff_schedule [of GenerateText ?op]
  have "retryWithBackoff GenerateText ?op maxRetries = (Inr 7, backoffTrace GenerateText 2)"
    by blast
  moreover have "?never maxRetries = Rejects (newError ''busy'')
      \<and> (\<forall>k<maxRetries. \<exists>e'. ?never k = Rejects e')"
    by simp
  with retryWithBackoff_schedule [of GenerateText ?never]
  have "retryWithBackoff GenerateText ?never maxRetries
      = (Inl (newError ''busy''), backoffTrace GenerateText maxRetries)"
    by blast
  ultimately show ?thesis by (simp only: t2 t3)
qed

text \<open>
  Claim C2 as the specification states it puts the pause \<open>min (1000 * 2 ^ k) 10000\<close> before
  attempt \<open>k\<close>. On an operation that always rejects, the pauses before the attempts
  \<open>0, 1, 2, 3\<close> are none, 1000, 2000 and 4000, not 1000, 2000, 4000 and 8000.
\<close>

theorem retry_delay_counterexample:
  "delaysBefore None
      (snd (retryWithBackoff GenerateText (\<lambda>k::nat. Rejects (newError ''busy'') :: nat outcome)
              maxRetries))
     = [None, Some 1000, Some 2000, Some 4000]
   \<and> [None, Some 1000, Some 2000, Some 4000]
       \<noteq> map (\<lambda>k. Some (min (1000 * 2 ^ k) 10000)) [0 ..< 4 :: nat]"
proof -
  have "retryWithBackoff GenerateText (\<lambda>k::nat. Rejects (newError ''busy'') :: nat outcome) maxRetries
      = (Inl (newError ''busy''),
         [Invoke GenerateText, Sleep 1000, Invoke GenerateText, Sleep 2000,
          Invoke GenerateText, Sleep 4000, Invoke GenerateText])"
    by (simp add: retryWithBackoff_def maxRetries_def retryLoop_unfold calculateDelay_def
        baseDelay_def maxDelay_def)
  moreover have "[0 ..< 4 :: nat] = [0, 1, 2, 3]" by (simp add: upt_rec)
  ultimately show ?thesis by simp
qed

section \<open>Properties of the validation\<close>

lemma truthy_string: "isString p \<Longrightarrow> truthy p = (asString p \<noteq> [])"
  by (cases p rule: isString.cases) simp_all

lemma truthy_array: "isArray p \<Longrightarrow> truthy p"
  by (cases p rule: isArray.cases) simp_all

lemma itemFault_null: "itemFault JNull"
  by (simp add: itemFault_def)

lemma checkCandidates_pass:
  "\<not> itemFault c \<Longrightarrow> checkCandidates (c # rest) = checkCandidates rest"
  by (auto simp: itemFault_def truthy_string)

lemma checkCandidates_stop:
  "itemFault c \<Longrightarrow>
     (\<exists>t. t \<noteq> [] \<and> checkCandidates (c # rest) = Inl t)
     \<or> (\<exists>m. m \<noteq> [] \<and> checkCandidates (c # rest) = Inr (Some m))"
  by (auto simp: itemFault_def truthy_string typeErrorText_def)

lemma checkCandidates_ok:
  "(checkCandidates cs = Inr None) = (\<forall>c \<in> set cs. \<not> itemFault c)"
proof (induction cs)
  case Nil
  then show ?case by simp
next
  case (Cons c cs)
  show ?case
  proof (cases "itemFault c")
    case True
    from checkCandidates_stop [OF True, of cs]
    have "checkCandidates (c # cs) \<noteq> Inr None" by auto
    with True show ?thesis by auto
  next
    case False
    then have "checkCandidates (c # cs) = checkCandidates cs" by (rule checkCandidates_pass)
    with False Cons show ?thesis by simp
  qed
qed

lemma checkCandidates_message:
  "(checkCandidates cs = Inl t \<longrightarrow> t \<noteq> []) \<and> (checkCandidates cs = Inr (Some m) \<longrightarrow> m \<noteq> [])"
proof (induction cs)
  case Nil
  then show ?case by simp
next
  case (Cons c cs)
  show ?case
  proof (cases "itemFault c")
    case True
    from checkCandidates_stop [OF True, of cs] show ?thesis by auto
  next
    case False
    then have "checkCandidates (c # cs) = checkCandidates cs" by (rule checkCandidates_pass)
    with Cons show ?thesis by simp
  qed
qed

lemma validate_sound:
  assumes "\<not> shapeFault parse response"
  shows "\<exists>v. parse response = Inr v
           \<and> validatePromptResponse parse response
               = \<lparr>isValid = True, error = None, parsed = Some v\<rparr>"
proof -
  from assms obtain v where v: "parse response = Inr v"
    by (cases "parse response") (simp_all add: shapeFault_def)
  with assms have arr: "isArray (property v ''candidates'')"
    and items: "\<forall>c \<in> set (asArray (property v ''candidates'')). \<not> itemFault c"
    by (simp_all add: shapeFault_def)
  from arr have nonnull: "v \<noteq> JNull" by auto
  from items have "checkCandidates (asArray (property v ''candidates'')) = Inr None"
    by (simp add: checkCandidates_ok)
  with v arr nonnull show ?thesis
    by (simp add: validatePromptResponse_def truthy_array)
qed

lemma invalidI:
  "r = invalid msg \<Longrightarrow> msg \<noteq> [] \<Longrightarrow> \<exists>m. m \<noteq> [] \<and> r = invalid m"
  by blast

lemma validate_fault:
  assumes "shapeFault parse response"
  shows "\<exists>msg. msg \<noteq> [] \<and> validatePromptResponse parse response = invalid msg"
proof (cases "parse response")
  case (Inl syntaxError)
  then show ?thesis by - (rule invalidI, simp add: validatePromptResponse_def, simp)
next
  case (Inr v)
  show ?thesis
  proof (cases "v = JNull")
    case True
    with Inr show ?thesis by - (rule invalidI, simp add: validatePromptResponse_def, simp)
  next
    case nonnull: False
    show ?thesis
    proof (cases "isArray (property v ''candidates'')")
      case False
      with Inr nonnull show ?thesis by - (rule invalidI, simp add: validatePromptResponse_def, simp)
    next
      case True
      with assms Inr have "\<exists>c \<in> set (asArray (property v ''candidates'')). itemFault c"
        by (simp add: shapeFault_def)
      then have ne: "checkCandidates (asArray (property v ''candidates'')) \<noteq> Inr None"
        by (simp add: checkCandidates_ok)
      show ?thesis
      proof (cases "checkCandidates (asArray (property v ''candidates''))")
        case (Inl t)
        with Inr nonnull True checkCandidates_message [of "asArray (property v ''candidates'')" t]
        show ?thesis
          by - (rule invalidI, simp add: validatePromptResponse_def truthy_array, simp)
      next
        case r: (Inr r)
        with ne obtain m where m: "r = Some m" by (cases r) auto
        with r checkCandidates_message [of "asArray (property v ''candidates'')" _ m]
        have "m \<noteq> []" by simp
        with Inr nonnull True r m show ?thesis
          by - (rule invalidI, simp add: validatePromptResponse_def truthy_array, simp)
      qed
    qed
  qed
qed

text \<open>
  Claim C8, as the code has it. \<open>validatePromptResponse\<close> returns a result on every input
  (every throw inside it is caught). The result is invalid, with an error message that is
  not empty and no parsed value, exactly when the input is not valid JSON, or the parsed
  value lacks a \<^verbatim>\<open>candidates\<close> array, or some item lacks an \<^verbatim>\<open>id\<close> that is a non-empty string, or
  has a \<^verbatim>\<open>score\<close> that is not a number in \<open>[0, 100]\<close>, or a \<^verbatim>\<open>highlights\<close> that is not an
  array, or a \<^verbatim>\<open>reasoning\<close> that is missing, empty or not a string, or a \<^verbatim>\<open>matchedSkills\<close> that
  is not an array. Otherwise the result is valid and carries the parsed value as it is.
\<close>

theorem validatePromptResponse_shape:
  "isValid (validatePromptResponse parse response) = (\<not> shapeFault parse response)
   \<and> (shapeFault parse response \<longrightarrow>
        (\<exists>msg. msg \<noteq> [] \<and> validatePromptResponse parse response = invalid msg))
   \<and> (\<not> shapeFault parse response \<longrightarrow>
        (\<exists>v. parse response = Inr v
           \<and> validatePromptResponse parse response
               = \<lparr>isValid = True, error = None, parsed = Some v\<rparr>))"
proof (cases "shapeFault parse response")
  case True
  from validate_fault [OF True] show ?thesis using True by (auto simp: invalid_def)
next
  case False
  from validate_sound [OF False] show ?thesis using False by auto
qed

theorem validatePromptResponse_shape_witness:
  "\<not> shapeFault (\<lambda>r. Inr goodResponse) ''text''
   \<and> validatePromptResponse (\<lambda>r. Inr goodResponse) ''text''
       = \<lparr>isValid = True, error = None, parsed = Some goodResponse\<rparr>
   \<and> shapeFault (\<lambda>r. Inr emptyIdResponse) ''text''
   \<and> \<not> isValid (validatePromptResponse (\<lambda>r. Inr emptyIdResponse) ''text'')
   \<and> shapeFault (\<lambda>r. Inl ''SyntaxError: Unexpected token'') ''text''
   \<and> \<not> isValid (validatePromptResponse (\<lambda>r. Inl ''SyntaxError: Unexpected token'') ''text'')"
proof -
  have g: "\<not> shapeFault (\<lambda>r. Inr goodResponse) ''text''"
    by (simp add: shapeFault_def itemFault_def goodResponse_def)
  have e: "shapeFault (\<lambda>r. Inr emptyIdResponse) ''text''"
    by (simp add: shapeFault_def itemFault_def emptyIdResponse_def)
  have s: "shapeFault (\<lambda>r. Inl ''SyntaxError: Unexpected token'') ''text''"
    by (simp add: shapeFault_def)
  from validatePromptResponse_shape [of "\<lambda>r. Inr goodResponse" "''text''"] g
  have "validatePromptResponse (\<lambda>r. Inr goodResponse) ''text''
       = \<lparr>isValid = True, error = None, parsed = Some goodResponse\<rparr>"
    by auto
  moreover from validatePromptResponse_shape [of "\<lambda>r. Inr emptyIdResponse" "''text''"] e
  have "\<not> isValid (validatePromptResponse (\<lambda>r. Inr emptyIdResponse) ''text'')" by blast
  moreover from validatePromptResponse_shape [of "\<lambda>r. Inl ''SyntaxError: Unexpected token''" "''text''"] s
  have "\<not> isValid (validatePromptResponse (\<lambda>r. Inl ''SyntaxError: Unexpected token'') ''text'')"
    by blast
  ultimately show ?thesis using g e s by blast
qed

text \<open>
  Claim C8 as the specification states it fails on an item whose \<^verbatim>\<open>id\<close> is the empty string:
  the item has a string \<^verbatim>\<open>id\<close> and none of the listed faults, and the code rejects it.
\<close>

theorem validatePromptResponse_counterexample:
  "\<not> isValid (validatePromptResponse (\<lambda>r. Inr emptyIdResponse) ''text'')
   \<and> \<not> statedFault (\<lambda>r. Inr emptyIdResponse) ''text''"
  by (simp add: validatePromptResponse_def emptyIdResponse_def statedFault_def statedItemFault_def
      invalid_def)

section \<open>Properties of the strategies\<close>

text \<open>The trace of the retry controller holds invocations of its own operation and pauses.\<close>

lemma retryLoop_trace:
  "\<exists>es. snd (retryLoop call operation retries a lastError trace) = trace @ es
     \<and> set es \<subseteq> insert (Invoke call) (range Sleep)
     \<and> (a \<le> retries \<longrightarrow> Invoke call \<in> set es)"
proof (induction "Suc retries - a" arbitrary: a lastError trace)
  case 0
  then have "\<not> a \<le> retries" by simp
  then show ?case by (subst retryLoop_unfold) simp
next
  case (Suc d)
  then have le: "a \<le> retries" by simp
  show ?case
  proof (cases "operation a")
    case (Resolves v)
    with le show ?thesis by (subst retryLoop_unfold) simp
  next
    case (Rejects err)
    let ?t = "trace @ Invoke call # (if a < retries then [Sleep (calculateDelay a)] else [])"
    from Suc.hyps(2) have "d = Suc retries - (a + 1)" by simp
    from Suc.hyps(1) [OF this, of "Some err" ?t]
    obtain es where es: "snd (retryLoop call operation retries (a + 1) (Some err) ?t) = ?t @ es"
      "set es \<subseteq> insert (Invoke call) (range Sleep)" by blast
    have "snd (retryLoop call operation retries a lastError trace)
        = trace @ (Invoke call # (if a < retries then [Sleep (calculateDelay a)] else []) @ es)"
      using le Rejects es(1) by (subst retryLoop_unfold) simp
    moreover have "set (Invoke call # (if a < retries then [Sleep (calculateDelay a)] else []) @ es)
        \<subseteq> insert (Invoke call) (range Sleep)"
      using es(2) by auto
    ultimately show ?thesis by (intro exI conjI) (assumption, assumption, simp)
  qed
qed

lemma retry_invokes_only:
  "Invoke c \<in> set (snd (retryWithBackoff call operation retries)) \<Longrightarrow> c = call"
  using retryLoop_trace [of call operation retries 0 None "[]"]
  by (auto simp: retryWithBackoff_def)

lemma retry_invokes:
  "Invoke call \<in> set (snd (retryWithBackoff call operation retries))"
  using retryLoop_trace [of call operation retries 0 None "[]"]
  by (auto simp: retryWithBackoff_def)

lemma mapThrowing_Inr:
  "mapThrowing f xs = Inr ys \<Longrightarrow> list_all2 (\<lambda>x y. f x = Inr y) xs ys"
  by (induction xs arbitrary: ys) (auto split: sum.splits)

lemma mapThrowing_Inl:
  "mapThrowing f xs = Inl e \<Longrightarrow> \<exists>x \<in> set xs. f x = Inl e"
  by (induction xs) (auto split: sum.splits)

lemma createScoredCandidate_Inr:
  assumes "createScoredCandidate t c os = Inr sc"
  shows "Candidate.id' sc = AICandidateResponse.id' c \<and> Candidate.truncate sc \<in> set os"
proof -
  from assms obtain oc where f: "find (\<lambda>x. Candidate.id' x = AICandidateResponse.id' c) os = Some oc"
    by (cases "find (\<lambda>x. Candidate.id' x = AICandidateResponse.id' c) os")
       (simp_all add: createScoredCandidate_def)
  then have oc: "oc \<in> set os" "Candidate.id' oc = AICandidateResponse.id' c"
    by (auto simp: find_Some_iff in_set_conv_nth)
  from assms f obtain more where "sc = Candidate.extend oc more"
    by (auto simp: createScoredCandidate_def split: sum.splits)
  then have "Candidate.id' sc = Candidate.id' oc" "Candidate.truncate sc = oc"
    by (simp_all add: Candidate.defs)
  with oc show ?thesis by simp
qed

lemma createScoredCandidate_unknown:
  assumes "AICandidateResponse.id' c \<notin> Candidate.id' ` set os"
  shows "createScoredCandidate t c os
     = Inl (newError (''Candidate with ID '' @ AICandidateResponse.id' c @ '' not found''))"
proof -
  from assms have "find (\<lambda>x. Candidate.id' x = AICandidateResponse.id' c) os = None"
    by (force simp: find_None_iff image_iff)
  then show ?thesis by (simp add: createScoredCandidate_def)
qed

lemma createScoredCandidate_Inl:
  "createScoredCandidate t c os = Inl e \<Longrightarrow> \<exists>m. m \<noteq> [] \<and> e = newError m"
  by (auto simp: createScoredCandidate_def createCandidateScore_def
      split: option.splits sum.splits if_splits)

lemma mapError_newError:
  "m \<noteq> [] \<Longrightarrow> mapErrorToScoringError t (newError m) = UNKNOWN_ERROR m"
  by (simp add: mapErrorToScoringError_def newError_def)

lemma mapScored_ids:
  assumes "mapThrowing (\<lambda>c. createScoredCandidate t c batch) items = Inr d"
  shows "map Candidate.id' d = map AICandidateResponse.id' items \<and> Candidate.truncate ` set d \<subseteq> set batch"
proof -
  from mapThrowing_Inr [OF assms]
  have "list_all2 (\<lambda>c sc. Candidate.id' sc = AICandidateResponse.id' c \<and> Candidate.truncate sc \<in> set batch) items d"
    by (rule list_all2_mono) (simp add: createScoredCandidate_Inr)
  then show ?thesis
    by (induction rule: list_all2_induct) auto
qed


lemma strategy_success:
  assumes "fst (scoreBatchWithStrategy w gw jd batch strategy ws) = Inr (Success d)"
  shows "\<exists>items. responseItems w gw strategy = Some items
           \<and> mapThrowing (\<lambda>c. createScoredCandidate (now w) c batch) items = Inr d"
proof (cases strategy)
  case Structured
  with assms show ?thesis
    by (auto simp: scoreBatchWithStrategy_def responseItems_def
        split: sum.splits prod.splits)
next
  case Fallback
  with assms show ?thesis
    by (auto simp: scoreBatchWithStrategy_def responseItems_def Let_def
        split: sum.splits prod.splits option.splits if_splits)
qed

lemma strategy_trace:
  "snd (scoreBatchWithStrategy w gw jd batch strategy ws) =
     (case getAIModel (getLLMProvider w) of
        Inl e \<Rightarrow> []
      | Inr m \<Rightarrow>
          (case strategy of
             Structured \<Rightarrow> snd (retryWithBackoff GenerateObject (generateObject gw) maxRetries)
           | Fallback \<Rightarrow> snd (retryWithBackoff GenerateText (generateText gw) maxRetries)))"
  by (simp add: scoreBatchWithStrategy_def Let_def
      split: sum.splits prod.splits option.splits ScoringStrategy.splits)

lemma strategy_returns:
  "fst (scoreBatchWithStrategy w gw jd batch strategy ws) = Inr r \<Longrightarrow>
     \<exists>m. getAIModel (getLLMProvider w) = Inr m"
  by (cases "getAIModel (getLLMProvider w)") (simp_all add: scoreBatchWithStrategy_def)

lemma structured_no_text:
  "Invoke GenerateText \<notin> set (snd (scoreBatchWithStrategy w gw jd batch Structured ws))"
  using retry_invokes_only [of GenerateText GenerateObject "generateObject gw" maxRetries]
  by (auto simp: strategy_trace split: sum.splits)

lemma fallback_text:
  "getAIModel (getLLMProvider w) = Inr m \<Longrightarrow>
     Invoke GenerateText \<in> set (snd (scoreBatchWithStrategy w gw jd batch Fallback ws))"
  using retry_invokes [of GenerateText "generateText gw" maxRetries]
  by (simp add: strategy_trace)

lemma processBatch_cases:
  "processBatch w batch i jd ws =
     (case fst (scoreBatchWithStrategy w (llm w i) jd batch Structured ws) of
        Inl e \<Rightarrow> (Inl e, snd (scoreBatchWithStrategy w (llm w i) jd batch Structured ws))
      | Inr (Success d) \<Rightarrow>
          (Inr (BatchSuccess d), snd (scoreBatchWithStrategy w (llm w i) jd batch Structured ws))
      | Inr (Failure e) \<Rightarrow>
          if typeOf e = T_PARSE_ERROR then
            ((case fst (scoreBatchWithStrategy w (llm w i) jd batch Fallback ws) of
                Inl x \<Rightarrow> Inl x
              | Inr (Success d) \<Rightarrow> Inr (BatchSuccess d)
              | Inr (Failure x) \<Rightarrow> Inr (BatchFailure x i)),
             snd (scoreBatchWithStrategy w (llm w i) jd batch Structured ws)
               @ snd (scoreBatchWithStrategy w (llm w i) jd batch Fallback ws))
          else
            (Inr (BatchFailure e i),
             snd (scoreBatchWithStrategy w (llm w i) jd batch Structured ws)))"
proof -
  obtain r1 t1 where st: "scoreBatchWithStrategy w (llm w i) jd batch Structured ws = (r1, t1)"
    by (cases "scoreBatchWithStrategy w (llm w i) jd batch Structured ws")
  obtain r2 t2 where fb: "scoreBatchWithStrategy w (llm w i) jd batch Fallback ws = (r2, t2)"
    by (cases "scoreBatchWithStrategy w (llm w i) jd batch Fallback ws")
  show ?thesis
  proof (cases r1)
    case (Inl e)
    then show ?thesis by (simp add: processBatch_def st)
  next
    case (Inr r)
    show ?thesis
    proof (cases r)
      case (Success d)
      with Inr show ?thesis by (simp add: processBatch_def st)
    next
      case (Failure e)
      with Inr show ?thesis
        by (cases r2) (simp_all add: processBatch_def st fb split: Result.splits)
    qed
  qed
qed

lemma sample_provider: "getAIModel (getLLMProvider sampleWorld) = Inr (OpenAI ''gpt-4.1-mini'')"
  by (simp add: getAIModel_def getLLMProvider_def sampleWorld_def)

lemma retry_first_try:
  "operation 0 = Resolves v \<Longrightarrow> retryWithBackoff call operation maxRetries = (Inr v, [Invoke call])"
  by (simp add: retryWithBackoff_def retryLoop_unfold)

lemma retry_never:
  "(\<And>k. operation k = Rejects e) \<Longrightarrow>
     retryWithBackoff call operation maxRetries
       = (Inl e, [Invoke call, Sleep 1000, Invoke call, Sleep 2000, Invoke call, Sleep 4000,
                  Invoke call])"
  by (simp add: retryWithBackoff_def maxRetries_def retryLoop_unfold calculateDelay_def
      baseDelay_def maxDelay_def)

text \<open>
  Claim C9. An item of a response whose id matches no candidate of the batch makes
  \<open>createScoredCandidate\<close> throw (\<open>Inl\<close>) the error "Candidate with ID ... not found"; when
  \<open>createScoredCandidate\<close> returns a scored candidate, that candidate has the id of the item
  and is one of the original candidates with the scoring fields added, so none is
  fabricated. For both strategies: a run that succeeds returns one scored candidate for
  each item of the response, in order and with the ids of the items (no item is dropped), each
  of them a candidate of the batch; and a response with an item of unknown id never gives a
  success, so the attempt is an error.
\<close>

theorem unknown_id_is_an_error:
  "(AICandidateResponse.id' item \<notin> Candidate.id' ` set originalCandidates \<longrightarrow>
      createScoredCandidate t item originalCandidates
        = Inl (newError (''Candidate with ID '' @ AICandidateResponse.id' item @ '' not found'')))
   \<and> (\<forall>sc. createScoredCandidate t item originalCandidates = Inr sc \<longrightarrow>
         Candidate.id' sc = AICandidateResponse.id' item
         \<and> Candidate.truncate sc \<in> set originalCandidates)
   \<and> (\<forall>d. fst (scoreBatchWithStrategy w gw jd batch strategy ws) = Inr (Success d) \<longrightarrow>
         (\<exists>items. responseItems w gw strategy = Some items
            \<and> map Candidate.id' d = map AICandidateResponse.id' items
            \<and> Candidate.truncate ` set d \<subseteq> set batch))
   \<and> (\<forall>items. responseItems w gw strategy = Some items
         \<and> (\<exists>i \<in> set items. AICandidateResponse.id' i \<notin> Candidate.id' ` set batch) \<longrightarrow>
         (\<forall>d. fst (scoreBatchWithStrategy w gw jd batch strategy ws) \<noteq> Inr (Success d)))"
proof -
  have kept: "\<exists>items. responseItems w gw strategy = Some items
            \<and> map Candidate.id' d = map AICandidateResponse.id' items
            \<and> Candidate.truncate ` set d \<subseteq> set batch"
    if "fst (scoreBatchWithStrategy w gw jd batch strategy ws) = Inr (Success d)" for d
    using strategy_success [OF that] mapScored_ids by blast
  have never: "fst (scoreBatchWithStrategy w gw jd batch strategy ws) \<noteq> Inr (Success d)"
    if items: "responseItems w gw strategy = Some items"
      and i: "i \<in> set items" "AICandidateResponse.id' i \<notin> Candidate.id' ` set batch" for items i d
  proof
    assume "fst (scoreBatchWithStrategy w gw jd batch strategy ws) = Inr (Success d)"
    from kept [OF this] items
    have ids: "map Candidate.id' d = map AICandidateResponse.id' items"
      and sub: "Candidate.truncate ` set d \<subseteq> set batch" by auto
    from i(1) have "AICandidateResponse.id' i \<in> set (map AICandidateResponse.id' items)" by simp
    with ids have "AICandidateResponse.id' i \<in> set (map Candidate.id' d)" by simp
    then obtain sc where sc: "sc \<in> set d" "Candidate.id' sc = AICandidateResponse.id' i" by auto
    with sub have "Candidate.truncate sc \<in> set batch" by auto
    moreover have "Candidate.id' (Candidate.truncate sc) = Candidate.id' sc"
      by (simp add: Candidate.defs)
    ultimately have "AICandidateResponse.id' i \<in> Candidate.id' ` set batch"
      using sc(2) by (metis image_eqI)
    with i(2) show False by contradiction
  qed
  from createScoredCandidate_unknown createScoredCandidate_Inr kept never
  show ?thesis by blast
qed

theorem unknown_id_is_an_error_witness:
  "AICandidateResponse.id' strayItem \<notin> Candidate.id' ` set [alice, bob]
   \<and> createScoredCandidate 0 strayItem [alice, bob]
       = Inl (newError ''Candidate with ID zz not found'')
   \<and> responseItems sampleWorld strayGateway Structured = Some [aliceItem, strayItem]
   \<and> (\<forall>d. fst (scoreBatchWithStrategy sampleWorld strayGateway ''Go engineer'' [alice, bob]
                 Structured None) \<noteq> Inr (Success d))"
proof -
  have unknown: "AICandidateResponse.id' strayItem \<notin> Candidate.id' ` set [alice, bob]"
    by (simp add: strayItem_def alice_def bob_def)
  have items: "responseItems sampleWorld strayGateway Structured = Some [aliceItem, strayItem]"
    by (simp add: responseItems_def retry_first_try strayGateway_def)
  have stray: "\<exists>i \<in> set [aliceItem, strayItem].
      AICandidateResponse.id' i \<notin> Candidate.id' ` set [alice, bob]"
    using unknown by simp
  note inst = unknown_id_is_an_error [of strayItem "[alice, bob]" 0 sampleWorld strayGateway
      "''Go engineer''" "[alice, bob]" Structured None]
  from inst unknown have "createScoredCandidate 0 strayItem [alice, bob]
       = Inl (newError (''Candidate with ID '' @ AICandidateResponse.id' strayItem @ '' not found''))"
    by blast
  then have thrown: "createScoredCandidate 0 strayItem [alice, bob]
       = Inl (newError ''Candidate with ID zz not found'')"
    by (simp add: strayItem_def)
  from inst items stray
  have "\<forall>d. fst (scoreBatchWithStrategy sampleWorld strayGateway ''Go engineer'' [alice, bob]
                 Structured None) \<noteq> Inr (Success d)"
    by blast
  with unknown thrown items show ?thesis by blast
qed

text \<open>
  Claim C10. Let the provider be supported and let the structured call resolve, after the
  retries, with a response that holds an item of unknown id. What \<open>createScoredCandidate\<close>
  throws for that item is a plain Error: no status, no code, no issues, and the name "Error";
  \<open>mapErrorToScoringError\<close> classifies it as \<open>UNKNOWN_ERROR\<close>. The structured strategy fails
  with an \<open>UNKNOWN_ERROR\<close>, \<open>processBatch\<close> returns that failure for the whole batch after the
  trace of the structured call alone, and the gateway is never asked for free text: the
  constrained-text strategy is not attempted.
\<close>

theorem unknown_id_fails_batch_without_fallback:
  assumes provider: "getAIModel (getLLMProvider w) = Inr m"
    and response: "fst (retryWithBackoff GenerateObject (generateObject (llm w i)) maxRetries)
                     = Inr object"
    and item: "item \<in> set object"
    and unknown: "AICandidateResponse.id' item \<notin> Candidate.id' ` set batch"
  shows "(\<exists>e. createScoredCandidate (now w) item batch = Inl (Object e)
            \<and> status e = None \<and> code e = None \<and> APIError.name e = Some ''Error''
            \<and> issues e = None
            \<and> typeOf (mapErrorToScoringError (now w) (Object e)) = T_UNKNOWN_ERROR)
    \<and> (\<exists>msg. fst (scoreBatchWithStrategy w (llm w i) jd batch Structured ws)
                 = Inr (Failure (UNKNOWN_ERROR msg))
           \<and> processBatch w batch i jd ws
                 = (Inr (BatchFailure (UNKNOWN_ERROR msg) i),
                    snd (retryWithBackoff GenerateObject (generateObject (llm w i)) maxRetries)))
    \<and> Invoke GenerateText \<notin> set (snd (processBatch w batch i jd ws))"
proof -
  let ?f = "\<lambda>c. createScoredCandidate (now w) c batch"
  let ?trace = "snd (retryWithBackoff GenerateObject (generateObject (llm w i)) maxRetries)"
  have thrown: "?f item
      = Inl (newError (''Candidate with ID '' @ AICandidateResponse.id' item @ '' not found''))"
    using unknown by (rule createScoredCandidate_unknown)
  then have first: "\<exists>e. ?f item = Inl (Object e)
            \<and> status e = None \<and> code e = None \<and> APIError.name e = Some ''Error''
            \<and> issues e = None
            \<and> typeOf (mapErrorToScoringError (now w) (Object e)) = T_UNKNOWN_ERROR"
    by (simp add: newError_def mapErrorToScoringError_def)
  have "\<exists>e. mapThrowing ?f object = Inl e"
  proof (cases "mapThrowing ?f object")
    case (Inl e)
    then show ?thesis by blast
  next
    case (Inr ys)
    from mapThrowing_Inr [OF this] item obtain y where "?f item = Inr y"
      by (auto simp: list_all2_conv_all_nth in_set_conv_nth)
    with thrown show ?thesis by simp
  qed
  then obtain e where e: "mapThrowing ?f object = Inl e" by blast
  from mapThrowing_Inl [OF this] obtain x where "?f x = Inl e" by blast
  from createScoredCandidate_Inl [OF this] obtain msg where msg: "msg \<noteq> []" "e = newError msg"
    by blast
  then have unk: "mapErrorToScoringError (now w) e = UNKNOWN_ERROR msg"
    by (simp add: mapError_newError)
  obtain r tr where run0: "retryWithBackoff GenerateObject (generateObject (llm w i)) maxRetries = (r, tr)"
    by (cases "retryWithBackoff GenerateObject (generateObject (llm w i)) maxRetries")
  with response have run: "retryWithBackoff GenerateObject (generateObject (llm w i)) maxRetries
      = (Inr object, tr)"
    by simp
  have st: "scoreBatchWithStrategy w (llm w i) jd batch Structured ws
      = (Inr (Failure (UNKNOWN_ERROR msg)), tr)"
    by (simp add: scoreBatchWithStrategy_def provider run e unk)
  then have pb: "processBatch w batch i jd ws = (Inr (BatchFailure (UNKNOWN_ERROR msg) i), tr)"
    by (simp add: processBatch_cases)
  have "Invoke GenerateText \<notin> set ?trace"
    using retry_invokes_only [of GenerateText GenerateObject "generateObject (llm w i)" maxRetries]
    by auto
  with first st pb run show ?thesis by auto
qed

theorem unknown_id_fails_batch_without_fallback_witness:
  "getAIModel (getLLMProvider sampleWorld) = Inr (OpenAI ''gpt-4.1-mini'')
   \<and> fst (retryWithBackoff GenerateObject (generateObject (llm sampleWorld 0)) maxRetries)
       = Inr [aliceItem, strayItem]
   \<and> strayItem \<in> set [aliceItem, strayItem]
   \<and> AICandidateResponse.id' strayItem \<notin> Candidate.id' ` set [alice, bob]
   \<and> processBatch sampleWorld [alice, bob] 0 ''Go engineer'' None
       = (Inr (BatchFailure (UNKNOWN_ERROR ''Candidate with ID zz not found'') 0),
          [Invoke GenerateObject])
   \<and> Invoke GenerateText \<notin> set (snd (processBatch sampleWorld [alice, bob] 0 ''Go engineer'' None))"
proof -
  have response: "fst (retryWithBackoff GenerateObject (generateObject (llm sampleWorld 0)) maxRetries)
       = Inr [aliceItem, strayItem]"
    by (simp add: retry_first_try sampleWorld_def strayGateway_def)
  have item: "strayItem \<in> set [aliceItem, strayItem]" by simp
  have unknown: "AICandidateResponse.id' strayItem \<notin> Candidate.id' ` set [alice, bob]"
    by (simp add: strayItem_def alice_def bob_def)
  from unknown_id_fails_batch_without_fallback [OF sample_provider response item unknown,
      of "''Go engineer''" None]
  have no: "Invoke GenerateText \<notin> set (snd (processBatch sampleWorld [alice, bob] 0 ''Go engineer'' None))"
    by blast
  have "createScoredCandidate 0 aliceItem [alice, bob] = Inr (Candidate.extend alice
          (ScoredCandidate.fields 90 [JString ''Go''] ''Strong match'' [JString ''Go''] 0))"
    by (simp add: createScoredCandidate_def createCandidateScore_def aliceItem_def alice_def bob_def)
  moreover have "createScoredCandidate 0 strayItem [alice, bob]
       = Inl (newError ''Candidate with ID zz not found'')"
    by (simp add: createScoredCandidate_def strayItem_def alice_def bob_def)
  ultimately have "scoreBatchWithStrategy sampleWorld (llm sampleWorld 0) ''Go engineer'' [alice, bob] Structured None
      = (Inr (Failure (UNKNOWN_ERROR ''Candidate with ID zz not found'')), [Invoke GenerateObject])"
    using sample_provider
    by (simp add: scoreBatchWithStrategy_def retry_first_try sampleWorld_def strayGateway_def
        mapError_newError)
  then have "processBatch sampleWorld [alice, bob] 0 ''Go engineer'' None
       = (Inr (BatchFailure (UNKNOWN_ERROR ''Candidate with ID zz not found'') 0),
          [Invoke GenerateObject])"
    by (simp add: processBatch_cases)
  with sample_provider response item unknown no show ?thesis by blast
qed

text \<open>
  Claim C1. For every batch, \<open>processBatch\<close> asks the gateway for free text (runs the
  constrained-text strategy) if and only if the structured strategy returned a failure
  whose type is \<open>PARSE_ERROR\<close>. After such a failure the trace of the batch is the trace of
  the structured run followed by that of the fallback run, and the outcome of the batch is
  the outcome of the fallback run. After a structured failure of type \<open>RATE_LIMIT\<close>,
  \<open>NETWORK_ERROR\<close>, \<open>QUOTA_EXCEEDED\<close>, \<open>VALIDATION_ERROR\<close> or \<open>UNKNOWN_ERROR\<close> the batch fails
  with that very error and the trace is that of the structured run alone.
\<close>

theorem fallback_iff_parse_error:
  fixes w :: world and batch :: "Candidate list" and i :: nat and jd :: string
    and ws :: "PartialWeights option"
  defines "st \<equiv> scoreBatchWithStrategy w (llm w i) jd batch Structured ws"
    and "fb \<equiv> scoreBatchWithStrategy w (llm w i) jd batch Fallback ws"
    and "pb \<equiv> processBatch w batch i jd ws"
  shows "(Invoke GenerateText \<in> set (snd pb))
           = (\<exists>e. fst st = Inr (Failure e) \<and> typeOf e = T_PARSE_ERROR)
    \<and> (\<forall>e. fst st = Inr (Failure e) \<and> typeOf e = T_PARSE_ERROR \<longrightarrow>
          snd pb = snd st @ snd fb
          \<and> fst pb = (case fst fb of
                        Inl x \<Rightarrow> Inl x
                      | Inr (Success d) \<Rightarrow> Inr (BatchSuccess d)
                      | Inr (Failure x) \<Rightarrow> Inr (BatchFailure x i)))
    \<and> (\<forall>e. fst st = Inr (Failure e)
          \<and> typeOf e \<in> {T_RATE_LIMIT, T_NETWORK_ERROR, T_QUOTA_EXCEEDED, T_VALIDATION_ERROR,
                         T_UNKNOWN_ERROR} \<longrightarrow>
          pb = (Inr (BatchFailure e i), snd st))"
proof -
  have no: "Invoke GenerateText \<notin> set (snd st)"
    unfolding st_def by (rule structured_no_text)
  have yes: "Invoke GenerateText \<in> set (snd fb)" if "fst st = Inr r" for r
  proof -
    from that obtain m where "getAIModel (getLLMProvider w) = Inr m"
      unfolding st_def using strategy_returns by blast
    then show ?thesis unfolding fb_def by (rule fallback_text)
  qed
  have pb: "pb =
     (case fst st of
        Inl e \<Rightarrow> (Inl e, snd st)
      | Inr (Success d) \<Rightarrow> (Inr (BatchSuccess d), snd st)
      | Inr (Failure e) \<Rightarrow>
          if typeOf e = T_PARSE_ERROR then
            ((case fst fb of
                Inl x \<Rightarrow> Inl x
              | Inr (Success d) \<Rightarrow> Inr (BatchSuccess d)
              | Inr (Failure x) \<Rightarrow> Inr (BatchFailure x i)),
             snd st @ snd fb)
          else (Inr (BatchFailure e i), snd st))"
    unfolding pb_def st_def fb_def by (rule processBatch_cases)
  have iff: "(Invoke GenerateText \<in> set (snd pb))
           = (\<exists>e. fst st = Inr (Failure e) \<and> typeOf e = T_PARSE_ERROR)"
  proof (cases "fst st")
    case (Inl e)
    with pb no show ?thesis by simp
  next
    case (Inr r)
    show ?thesis
    proof (cases r)
      case (Success d)
      with Inr pb no show ?thesis by simp
    next
      case (Failure e)
      with Inr pb no yes [OF Inr] show ?thesis by simp
    qed
  qed
  have parse: "snd pb = snd st @ snd fb
          \<and> fst pb = (case fst fb of
                        Inl x \<Rightarrow> Inl x
                      | Inr (Success d) \<Rightarrow> Inr (BatchSuccess d)
                      | Inr (Failure x) \<Rightarrow> Inr (BatchFailure x i))"
    if "fst st = Inr (Failure e)" "typeOf e = T_PARSE_ERROR" for e
    using that pb by simp
  have other: "pb = (Inr (BatchFailure e i), snd st)"
    if "fst st = Inr (Failure e)"
      "typeOf e \<in> {T_RATE_LIMIT, T_NETWORK_ERROR, T_QUOTA_EXCEEDED, T_VALIDATION_ERROR,
                         T_UNKNOWN_ERROR}" for e
    using that pb by auto
  from iff parse other show ?thesis by blast
qed

theorem fallback_iff_parse_error_witness:
  "fst (scoreBatchWithStrategy sampleWorld (llm sampleWorld 1) ''Go engineer'' [alice, bob]
          Structured None)
     = Inr (Failure (PARSE_ERROR ''Unexpected token in JSON'' None))
   \<and> typeOf (PARSE_ERROR ''Unexpected token in JSON'' None) = T_PARSE_ERROR
   \<and> Invoke GenerateText \<in> set (snd (processBatch sampleWorld [alice, bob] 1 ''Go engineer'' None))
   \<and> fst (scoreBatchWithStrategy sampleWorld (llm sampleWorld 2) ''Go engineer'' [alice, bob]
          Structured None)
     = Inr (Failure (RATE_LIMIT 30 ''API rate limit exceeded''))
   \<and> typeOf (RATE_LIMIT 30 ''API rate limit exceeded'')
       \<in> {T_RATE_LIMIT, T_NETWORK_ERROR, T_QUOTA_EXCEEDED, T_VALIDATION_ERROR, T_UNKNOWN_ERROR}
   \<and> processBatch sampleWorld [alice, bob] 2 ''Go engineer'' None
     = (Inr (BatchFailure (RATE_LIMIT 30 ''API rate limit exceeded'') 2),
        [Invoke GenerateObject, Sleep 1000, Invoke GenerateObject, Sleep 2000,
         Invoke GenerateObject, Sleep 4000, Invoke GenerateObject])"
proof -
  have broken: "retryWithBackoff GenerateObject (generateObject (llm sampleWorld 1)) maxRetries
      = (Inl jsonSyntaxError,
         [Invoke GenerateObject, Sleep 1000, Invoke GenerateObject, Sleep 2000,
          Invoke GenerateObject, Sleep 4000, Invoke GenerateObject])"
    by (rule retry_never) (simp add: sampleWorld_def brokenGateway_def)
  have limited: "retryWithBackoff GenerateObject (generateObject (llm sampleWorld 2)) maxRetries
      = (Inl tooManyRequests,
         [Invoke GenerateObject, Sleep 1000, Invoke GenerateObject, Sleep 2000,
          Invoke GenerateObject, Sleep 4000, Invoke GenerateObject])"
    by (rule retry_never) (simp add: sampleWorld_def limitedGateway_def)
  have e1: "mapErrorToScoringError (now sampleWorld) jsonSyntaxError
      = PARSE_ERROR ''Unexpected token in JSON'' None"
    by (simp add: mapErrorToScoringError_def jsonSyntaxError_def)
  have e2: "mapErrorToScoringError (now sampleWorld) tooManyRequests
      = RATE_LIMIT 30 ''API rate limit exceeded''"
    by (simp add: mapErrorToScoringError_def tooManyRequests_def)
  have st1: "scoreBatchWithStrategy sampleWorld (llm sampleWorld 1) ''Go engineer'' [alice, bob]
          Structured None
     = (Inr (Failure (PARSE_ERROR ''Unexpected token in JSON'' None)),
        [Invoke GenerateObject, Sleep 1000, Invoke GenerateObject, Sleep 2000,
         Invoke GenerateObject, Sleep 4000, Invoke GenerateObject])"
    using sample_provider broken e1 by (simp add: scoreBatchWithStrategy_def)
  have st2: "scoreBatchWithStrategy sampleWorld (llm sampleWorld 2) ''Go engineer'' [alice, bob]
          Structured None
     = (Inr (Failure (RATE_LIMIT 30 ''API rate limit exceeded'')),
        [Invoke GenerateObject, Sleep 1000, Invoke GenerateObject, Sleep 2000,
         Invoke GenerateObject, Sleep 4000, Invoke GenerateObject])"
    using sample_provider limited e2 by (simp add: scoreBatchWithStrategy_def)
  have t1: "typeOf (PARSE_ERROR ''Unexpected token in JSON'' None) = T_PARSE_ERROR" by simp
  have t2: "typeOf (RATE_LIMIT 30 ''API rate limit exceeded'')
       \<in> {T_RATE_LIMIT, T_NETWORK_ERROR, T_QUOTA_EXCEEDED, T_VALIDATION_ERROR, T_UNKNOWN_ERROR}"
    by simp
  from fallback_iff_parse_error [of sampleWorld "[alice, bob]" 1 "''Go engineer''" None] st1 t1
  have a: "Invoke GenerateText \<in> set (snd (processBatch sampleWorld [alice, bob] 1 ''Go engineer'' None))"
    by (metis fst_conv)
  from fallback_iff_parse_error [of sampleWorld "[alice, bob]" 2 "''Go engineer''" None] st2 t2
  have b: "processBatch sampleWorld [alice, bob] 2 ''Go engineer'' None
     = (Inr (BatchFailure (RATE_LIMIT 30 ''API rate limit exceeded'') 2),
        [Invoke GenerateObject, Sleep 1000, Invoke GenerateObject, Sleep 2000,
         Invoke GenerateObject, Sleep 4000, Invoke GenerateObject])"
    by (metis fst_conv snd_conv)
  from st1 st2 t1 t2 a b show ?thesis by simp
qed

section \<open>Properties of the final result\<close>

text \<open>The waves collect the outcome of every batch in the order of the batches.\<close>

lemma wave_results:
  "map (\<lambda>(gi, r). settle w (i + gi) (fst r))
       (enumerate n (map (\<lambda>(gi, b). processBatch w b (i + gi) jd ws) (enumerate n bs)))
     = map (\<lambda>(k, b). settle w k (fst (processBatch w b k jd ws))) (enumerate (i + n) bs)"
  by (induction bs arbitrary: n) simp_all

lemma slice_take_drop: "slice xs i (i + n) = take n (drop i xs)"
  by (simp add: slice_def drop_take)

lemma enumerate_split:
  "enumerate i (drop i xs) = enumerate i (slice xs i (i + n)) @ enumerate (i + n) (drop (i + n) xs)"
proof -
  let ?ys = "drop i xs"
  have "enumerate i ?ys = enumerate i (take n ?ys @ drop n ?ys)"
    by (simp only: append_take_drop_id)
  also have "\<dots> = enumerate i (take n ?ys) @ enumerate (i + length (take n ?ys)) (drop n ?ys)"
    by (rule enumerate_append_eq)
  also have "enumerate (i + length (take n ?ys)) (drop n ?ys) = enumerate (i + n) (drop n ?ys)"
  proof (cases "n \<le> length ?ys")
    case True
    then show ?thesis by (simp add: min_def)
  next
    case False
    then have "drop n ?ys = []" by simp
    then show ?thesis by simp
  qed
  finally show ?thesis by (simp add: slice_take_drop add.commute)
qed

lemma waveLoop_results:
  "fst (waveLoop w batches jd ws i results trace)
     = results @ map (\<lambda>(k, b). settle w k (fst (processBatch w b k jd ws)))
                  (enumerate i (drop i batches))"
proof (induction "length batches - i" arbitrary: i results trace rule: less_induct)
  case less
  show ?case
  proof (cases "i < length batches")
    case False
    then show ?thesis by (subst waveLoop.simps) simp
  next
    case True
    let ?n = maxConcurrentBatches
    let ?group = "slice batches i (i + ?n)"
    let ?settled = "map (\<lambda>(gi, b). processBatch w b (i + gi) jd ws) (enumerate 0 ?group)"
    let ?processed = "map (\<lambda>(gi, r). settle w (i + gi) (fst r)) (enumerate 0 ?settled)"
    let ?pause = "if i + ?n < length batches then [Sleep 1000] else []"
    have smaller: "length batches - (i + ?n) < length batches - i"
      using True by (simp add: maxConcurrentBatches_def)
    have "fst (waveLoop w batches jd ws i results trace)
        = fst (waveLoop w batches jd ws (i + ?n) (results @ ?processed)
                 (trace @ concat (map snd ?settled) @ ?pause))"
      using True by (subst waveLoop.simps) (simp add: Let_def)
    also have "\<dots> = (results @ ?processed)
          @ map (\<lambda>(k, b). settle w k (fst (processBatch w b k jd ws)))
              (enumerate (i + ?n) (drop (i + ?n) batches))"
      by (rule less.hyps [OF smaller])
    also have "?processed = map (\<lambda>(k, b). settle w k (fst (processBatch w b k jd ws)))
          (enumerate i ?group)"
      using wave_results [of w i 0 jd ws ?group] by simp
    finally show ?thesis
      by (simp add: enumerate_split [of i batches ?n])
  qed
qed

lemma processParallelBatches_results:
  "fst (processParallelBatches w batches jd ws)
     = (concat (map dataOf (filter isSuccess (batchOutcomes w batches jd ws))),
        concat (map errorOf (filter (\<lambda>r. \<not> isSuccess r) (batchOutcomes w batches jd ws))))"
proof -
  obtain rs tr where run: "waveLoop w batches jd ws 0 [] [] = (rs, tr)"
    by (cases "waveLoop w batches jd ws 0 [] []")
  with waveLoop_results [of w batches jd ws 0 "[]" "[]"]
  have "rs = batchOutcomes w batches jd ws" by (simp add: batchOutcomes_def)
  with run show ?thesis by (simp add: processParallelBatches_def)
qed


lemma first_error:
  "k < length rs \<Longrightarrow> rs ! k = BatchFailure e j \<Longrightarrow> (\<forall>l<k. isSuccess (rs ! l)) \<Longrightarrow>
     \<exists>rest. concat (map errorOf (filter (\<lambda>r. \<not> isSuccess r) rs)) = e # rest"
proof (induction rs arbitrary: k)
  case Nil
  then show ?case by simp
next
  case (Cons r rs)
  show ?case
  proof (cases k)
    case 0
    with Cons.prems show ?thesis by simp
  next
    case (Suc k')
    with Cons.prems have "isSuccess r" by auto
    moreover from Suc Cons.prems have "k' < length rs" "rs ! k' = BatchFailure e j"
      "\<forall>l<k'. isSuccess (rs ! l)" by auto
    ultimately show ?thesis using Cons.IH [of k'] by simp
  qed
qed

lemma no_errors:
  "(\<forall>k<length rs. isSuccess (rs ! k)) \<Longrightarrow>
     concat (map errorOf (filter (\<lambda>r. \<not> isSuccess r) rs)) = []"
proof -
  assume "\<forall>k<length rs. isSuccess (rs ! k)"
  then have "\<forall>r \<in> set rs. isSuccess r" by (auto simp: in_set_conv_nth)
  then have "filter (\<lambda>r. \<not> isSuccess r) rs = []" by (simp add: filter_empty_conv)
  then show ?thesis by simp
qed

lemma scoreCandidates_result:
  assumes "candidates \<noteq> []"
    and "createBatches candidates (batchSizeOf opts) = Inr batches"
  shows "fst (scoreCandidates w jd candidates opts) =
     (if concat (map dataOf (filter isSuccess (batchOutcomes w batches jd (options.weights opts)))) = []
      then Failure
        (case concat (map errorOf (filter (\<lambda>r. \<not> isSuccess r)
                 (batchOutcomes w batches jd (options.weights opts)))) of
           [] \<Rightarrow> UNKNOWN_ERROR ''No candidates could be scored''
         | e # _ \<Rightarrow> e)
      else Success (sortAndLimitCandidates
             (concat (map dataOf (filter isSuccess
                (batchOutcomes w batches jd (options.weights opts)))))
             (maxResultsOf opts)))"
proof -
  obtain sc er tr where run: "processParallelBatches w batches jd (options.weights opts) = ((sc, er), tr)"
    by (cases "processParallelBatches w batches jd (options.weights opts)") auto
  with processParallelBatches_results [of w batches jd "options.weights opts"]
  have "sc = concat (map dataOf (filter isSuccess (batchOutcomes w batches jd (options.weights opts))))"
    and "er = concat (map errorOf (filter (\<lambda>r. \<not> isSuccess r)
                 (batchOutcomes w batches jd (options.weights opts))))"
    by simp_all
  with run assms show ?thesis
    by (simp add: scoreCandidates_def batchSizeOf_def maxResultsOf_def Let_def)
qed

lemma batchOutcomes_nth:
  "length (batchOutcomes w batches jd ws) = length batches
   \<and> (\<forall>k<length batches.
         batchOutcomes w batches jd ws ! k = settle w k (fst (processBatch w (batches ! k) k jd ws)))"
  by (simp add: batchOutcomes_def nth_enumerate_eq)

lemma sort_desc:
  "mset (sort_key (\<lambda>c. - ScoredCandidate.score c) xs) = mset xs
   \<and> sorted_wrt (\<lambda>a b. ScoredCandidate.score a \<ge> ScoredCandidate.score b)
        (sort_key (\<lambda>c. - ScoredCandidate.score c) xs)
   \<and> (\<forall>s. filter (\<lambda>c. ScoredCandidate.score c = s) (sort_key (\<lambda>c. - ScoredCandidate.score c) xs)
          = filter (\<lambda>c. ScoredCandidate.score c = s) xs)"
proof -
  let ?f = "\<lambda>c. - ScoredCandidate.score c"
  have "sorted (map ?f (sort_key ?f xs))" by (rule sorted_sort_key)
  then have s: "sorted_wrt (\<lambda>a b. ScoredCandidate.score a \<ge> ScoredCandidate.score b) (sort_key ?f xs)"
    by (simp add: sorted_map)
  have "filter (\<lambda>c. ScoredCandidate.score c = s) (sort_key ?f xs)
          = filter (\<lambda>c. ScoredCandidate.score c = s) xs" for s
  proof -
    have "filter (\<lambda>c. ?f c = - s) (sort_key ?f xs) = filter (\<lambda>c. ?f c = - s) xs"
      by (rule sort_key_stable)
    then show ?thesis by simp
  qed
  with s show ?thesis by simp
qed

lemma default_provider:
  "LLM_PROVIDER w = None \<Longrightarrow> LLM_MODEL w = None \<Longrightarrow>
     getAIModel (getLLMProvider w) = Inr (OpenAI ''gpt-4.1-mini'')"
  by (simp add: getAIModel_def getLLMProvider_def)

lemma limited_batch:
  assumes "LLM_PROVIDER w = None" "LLM_MODEL w = None" "llm w k = limitedGateway"
  shows "fst (processBatch w batch k jd ws)
     = Inr (BatchFailure (RATE_LIMIT 30 ''API rate limit exceeded'') k)"
proof -
  have "retryWithBackoff GenerateObject (generateObject (llm w k)) maxRetries
      = (Inl tooManyRequests,
         [Invoke GenerateObject, Sleep 1000, Invoke GenerateObject, Sleep 2000,
          Invoke GenerateObject, Sleep 4000, Invoke GenerateObject])"
    by (rule retry_never) (simp add: assms limitedGateway_def)
  moreover have "mapErrorToScoringError (now w) tooManyRequests
      = RATE_LIMIT 30 ''API rate limit exceeded''"
    by (simp add: mapErrorToScoringError_def tooManyRequests_def)
  ultimately have "fst (scoreBatchWithStrategy w (llm w k) jd batch Structured ws)
      = Inr (Failure (RATE_LIMIT 30 ''API rate limit exceeded''))"
    using default_provider [OF assms(1,2)] by (simp add: scoreBatchWithStrategy_def)
  then show ?thesis by (simp add: processBatch_cases)
qed

lemma scored_alice:
  "createScoredCandidate 0 aliceItem [alice, bob] = Inr (scored alice aliceItem)"
  by (simp add: createScoredCandidate_def createCandidateScore_def scored_def aliceItem_def
      alice_def bob_def)

lemma scored_bob:
  "createScoredCandidate 0 bobItem [alice, bob] = Inr (scored bob bobItem)"
  by (simp add: createScoredCandidate_def createCandidateScore_def scored_def bobItem_def
      alice_def bob_def)

lemma three_in_twos: "createBatches [alice, bob, carol] 2 = Inr [[alice, bob], [carol]]"
proof -
  have "nat \<lceil>rat_of_nat (length [alice, bob, carol]) / rat_of_nat 2\<rceil> = 2"
    using ceiling_quotient [of 2 3] by simp
  moreover have "[0..<2] = [0, 1]" by (simp add: upt_rec)
  ultimately show ?thesis by (simp add: createBatches_def slice_def)
qed

lemma mixed_outcomes:
  "batchOutcomes mixedWorld [[alice, bob], [carol]] ''Go engineer'' None
     = [BatchSuccess [scored alice aliceItem, scored bob bobItem],
        BatchFailure (RATE_LIMIT 30 ''API rate limit exceeded'') 1]"
proof -
  have "retryWithBackoff GenerateObject (generateObject (llm mixedWorld 0)) maxRetries
      = (Inr [aliceItem, bobItem], [Invoke GenerateObject])"
    by (rule retry_first_try) (simp add: mixedWorld_def pairGateway_def)
  then have "fst (scoreBatchWithStrategy mixedWorld (llm mixedWorld 0) ''Go engineer'' [alice, bob]
                Structured None)
      = Inr (Success [scored alice aliceItem, scored bob bobItem])"
    using default_provider [of mixedWorld] scored_alice scored_bob
    by (simp add: scoreBatchWithStrategy_def mixedWorld_def)
  then have a: "fst (processBatch mixedWorld [alice, bob] 0 ''Go engineer'' None)
      = Inr (BatchSuccess [scored alice aliceItem, scored bob bobItem])"
    by (simp add: processBatch_cases)
  have b: "fst (processBatch mixedWorld [carol] 1 ''Go engineer'' None)
      = Inr (BatchFailure (RATE_LIMIT 30 ''API rate limit exceeded'') 1)"
    by (rule limited_batch) (simp_all add: mixedWorld_def)
  from a b show ?thesis by (simp add: batchOutcomes_def settle_def)
qed

lemma down_outcomes:
  "batchOutcomes downWorld [[alice, bob], [carol]] ''Go engineer'' None
     = [BatchFailure (RATE_LIMIT 30 ''API rate limit exceeded'') 0,
        BatchFailure (UNKNOWN_ERROR ''Candidate with ID c1 not found'') 1]"
proof -
  have a: "fst (processBatch downWorld [alice, bob] 0 ''Go engineer'' None)
      = Inr (BatchFailure (RATE_LIMIT 30 ''API rate limit exceeded'') 0)"
    by (rule limited_batch) (simp_all add: downWorld_def)
  have "retryWithBackoff GenerateObject (generateObject (llm downWorld 1)) maxRetries
      = (Inr [aliceItem, strayItem], [Invoke GenerateObject])"
    by (rule retry_first_try) (simp add: downWorld_def strayGateway_def)
  moreover have "createScoredCandidate 0 aliceItem [carol]
      = Inl (newError ''Candidate with ID c1 not found'')"
    by (simp add: createScoredCandidate_def aliceItem_def carol_def)
  ultimately have "fst (scoreBatchWithStrategy downWorld (llm downWorld 1) ''Go engineer'' [carol]
                Structured None)
      = Inr (Failure (UNKNOWN_ERROR ''Candidate with ID c1 not found''))"
    using default_provider [of downWorld]
    by (simp add: scoreBatchWithStrategy_def downWorld_def mapError_newError)
  then have b: "fst (processBatch downWorld [carol] 1 ''Go engineer'' None)
      = Inr (BatchFailure (UNKNOWN_ERROR ''Candidate with ID c1 not found'') 1)"
    by (simp add: processBatch_cases)
  from a b show ?thesis by (simp add: batchOutcomes_def settle_def)
qed

text \<open>
  Claim C4. Let the pool be non-empty and let \<open>scoredCandidates\<close>, the concatenation in batch
  order of the scored candidates of the successful batches, be non-empty. Then
  \<open>scoreCandidates\<close> returns success, whatever the failed batches and their errors are, and
  its data are the first \<open>maxResults\<close> elements (30 when the option is absent) of a list
  \<open>ranked\<close> that has exactly the elements of \<open>scoredCandidates\<close>, is in descending order of
  score, and keeps the candidates of every one score in the order they have in
  \<open>scoredCandidates\<close> (the sort is stable and has no secondary key).
\<close>

theorem partial_success_is_ranked:
  assumes "candidates \<noteq> []"
    and "createBatches candidates (batchSizeOf opts) = Inr batches"
    and "scoredCandidates
           = concat (map dataOf (filter isSuccess (batchOutcomes w batches jd (options.weights opts))))"
    and "scoredCandidates \<noteq> []"
  shows "\<exists>ranked. fst (scoreCandidates w jd candidates opts)
                     = Success (take (maxResultsOf opts) ranked)
      \<and> mset ranked = mset scoredCandidates
      \<and> sorted_wrt (\<lambda>a b. ScoredCandidate.score a \<ge> ScoredCandidate.score b) ranked
      \<and> (\<forall>s. filter (\<lambda>c. ScoredCandidate.score c = s) ranked
             = filter (\<lambda>c. ScoredCandidate.score c = s) scoredCandidates)"
proof -
  let ?ranked = "sort_key (\<lambda>c. - ScoredCandidate.score c) scoredCandidates"
  from scoreCandidates_result [OF assms(1,2), of w jd] assms(3,4)
  have "fst (scoreCandidates w jd candidates opts) = Success (take (maxResultsOf opts) ?ranked)"
    by (simp add: sortAndLimitCandidates_def)
  with sort_desc [of scoredCandidates] show ?thesis by blast
qed

theorem partial_success_is_ranked_witness:
  "[alice, bob, carol] \<noteq> []
   \<and> createBatches [alice, bob, carol] (batchSizeOf twoByTwo) = Inr [[alice, bob], [carol]]
   \<and> batchOutcomes mixedWorld [[alice, bob], [carol]] ''Go engineer'' (options.weights twoByTwo)
       = [BatchSuccess [scored alice aliceItem, scored bob bobItem],
          BatchFailure (RATE_LIMIT 30 ''API rate limit exceeded'') 1]
   \<and> (\<exists>ranked. fst (scoreCandidates mixedWorld ''Go engineer'' [alice, bob, carol] twoByTwo)
                   = Success (take 30 ranked)
          \<and> mset ranked = mset [scored alice aliceItem, scored bob bobItem]
          \<and> sorted_wrt (\<lambda>a b. ScoredCandidate.score a \<ge> ScoredCandidate.score b) ranked)
   \<and> fst (scoreCandidates mixedWorld ''Go engineer'' [alice, bob, carol] twoByTwo)
       = Success [scored bob bobItem, scored alice aliceItem]"
proof -
  have ne: "[alice, bob, carol] \<noteq> []" by simp
  have cb: "createBatches [alice, bob, carol] (batchSizeOf twoByTwo) = Inr [[alice, bob], [carol]]"
    by (simp add: batchSizeOf_def twoByTwo_def three_in_twos)
  have ws: "options.weights twoByTwo = None" by (simp add: twoByTwo_def)
  have lim: "maxResultsOf twoByTwo = 30" by (simp add: maxResultsOf_def twoByTwo_def)
  have oc: "batchOutcomes mixedWorld [[alice, bob], [carol]] ''Go engineer'' (options.weights twoByTwo)
       = [BatchSuccess [scored alice aliceItem, scored bob bobItem],
          BatchFailure (RATE_LIMIT 30 ''API rate limit exceeded'') 1]"
    by (simp only: ws mixed_outcomes)
  have sc: "[scored alice aliceItem, scored bob bobItem]
      = concat (map dataOf (filter isSuccess
          (batchOutcomes mixedWorld [[alice, bob], [carol]] ''Go engineer'' (options.weights twoByTwo))))"
    by (simp add: oc)
  have nonempty: "[scored alice aliceItem, scored bob bobItem] \<noteq> []" by simp
  from partial_success_is_ranked [OF ne cb sc nonempty] lim
  have ex: "\<exists>ranked. fst (scoreCandidates mixedWorld ''Go engineer'' [alice, bob, carol] twoByTwo)
                   = Success (take 30 ranked)
          \<and> mset ranked = mset [scored alice aliceItem, scored bob bobItem]
          \<and> sorted_wrt (\<lambda>a b. ScoredCandidate.score a \<ge> ScoredCandidate.score b) ranked"
    by auto
  have "ScoredCandidate.score (scored alice aliceItem) = 90"
    "ScoredCandidate.score (scored bob bobItem) = 95"
    by (simp_all add: scored_def aliceItem_def bobItem_def Candidate.defs ScoredCandidate.defs)
  then have "sortAndLimitCandidates [scored alice aliceItem, scored bob bobItem] 30
      = [scored bob bobItem, scored alice aliceItem]"
    by (simp add: sortAndLimitCandidates_def)
  with scoreCandidates_result [OF ne cb, of mixedWorld "''Go engineer''"] oc lim
  have "fst (scoreCandidates mixedWorld ''Go engineer'' [alice, bob, carol] twoByTwo)
       = Success [scored bob bobItem, scored alice aliceItem]"
    by simp
  with ne cb oc ex show ?thesis by blast
qed

lemma silent_outcomes:
  "batchOutcomes silentWorld [[alice, bob], [carol]] ''Go engineer'' None
     = [BatchSuccess [], BatchSuccess []]"
proof -
  have "retryWithBackoff GenerateObject (generateObject (llm silentWorld k)) maxRetries
      = (Inr [], [Invoke GenerateObject])" for k
    by (rule retry_first_try) (simp add: silentWorld_def silentGateway_def)
  then have "fst (scoreBatchWithStrategy silentWorld (llm silentWorld k) ''Go engineer'' batch
                Structured None) = Inr (Success [])" for k batch
    using default_provider [of silentWorld]
    by (simp add: scoreBatchWithStrategy_def silentWorld_def)
  then have "fst (processBatch silentWorld batch k ''Go engineer'' None) = Inr (BatchSuccess [])"
    for k batch
    by (simp add: processBatch_cases)
  then show ?thesis by (simp add: batchOutcomes_def settle_def)
qed

text \<open>
  A batch size of zero: \<open>createBatches\<close> throws, and the failure is the mapped RangeError.
\<close>

lemma zero_batch_size:
  assumes "candidates \<noteq> []" and "options.batchSize opts = Some 0"
  shows "scoreCandidates w jd candidates opts = (Failure (UNKNOWN_ERROR ''Invalid array length''), [])"
  using assms
  by (simp add: scoreCandidates_def createBatches_def rangeError_def mapErrorToScoringError_def)

text \<open>
  Claim C6. Let the pool be non-empty and let no candidate be scored. The outcomes are
  collected in batch order: outcome \<open>k\<close> is that of batch \<open>k\<close>. \<open>scoreCandidates\<close> returns a
  failure; it carries the error of the failed batch of lowest index, and when no batch
  failed (the list of errors is empty) it carries the \<open>UNKNOWN_ERROR\<close> "No candidates could
  be scored".
\<close>

theorem total_failure_first_error:
  assumes "candidates \<noteq> []"
    and "createBatches candidates (batchSizeOf opts) = Inr batches"
    and "outcomes = batchOutcomes w batches jd (options.weights opts)"
    and "concat (map dataOf (filter isSuccess outcomes)) = []"
  shows "length outcomes = length batches
    \<and> (\<forall>k<length batches.
          outcomes ! k = settle w k (fst (processBatch w (batches ! k) k jd (options.weights opts))))
    \<and> (\<exists>e. fst (scoreCandidates w jd candidates opts) = Failure e)
    \<and> (\<forall>k e j. k < length outcomes \<and> outcomes ! k = BatchFailure e j
            \<and> (\<forall>l<k. isSuccess (outcomes ! l))
          \<longrightarrow> fst (scoreCandidates w jd candidates opts) = Failure e)
    \<and> ((\<forall>k<length outcomes. isSuccess (outcomes ! k))
          \<longrightarrow> fst (scoreCandidates w jd candidates opts)
                = Failure (UNKNOWN_ERROR ''No candidates could be scored''))"
proof -
  let ?errors = "concat (map errorOf (filter (\<lambda>r. \<not> isSuccess r) outcomes))"
  from scoreCandidates_result [OF assms(1,2), of w jd] assms(3,4)
  have res: "fst (scoreCandidates w jd candidates opts)
      = Failure (case ?errors of [] \<Rightarrow> UNKNOWN_ERROR ''No candidates could be scored'' | e # _ \<Rightarrow> e)"
    by simp
  have first: "fst (scoreCandidates w jd candidates opts) = Failure e"
    if "k < length outcomes" "outcomes ! k = BatchFailure e j" "\<forall>l<k. isSuccess (outcomes ! l)"
    for k e j
    using first_error [OF that] res by auto
  have none: "fst (scoreCandidates w jd candidates opts)
                = Failure (UNKNOWN_ERROR ''No candidates could be scored'')"
    if "\<forall>k<length outcomes. isSuccess (outcomes ! k)"
  proof -
    from no_errors [OF that] have "?errors = []" .
    with res show ?thesis by (simp only: list.case)
  qed
  from batchOutcomes_nth [of w batches jd "options.weights opts"] assms(3) res first none
  show ?thesis by blast
qed

theorem total_failure_first_error_witness:
  "[alice, bob, carol] \<noteq> []
   \<and> createBatches [alice, bob, carol] (batchSizeOf twoByTwo) = Inr [[alice, bob], [carol]]
   \<and> batchOutcomes downWorld [[alice, bob], [carol]] ''Go engineer'' (options.weights twoByTwo)
       = [BatchFailure (RATE_LIMIT 30 ''API rate limit exceeded'') 0,
          BatchFailure (UNKNOWN_ERROR ''Candidate with ID c1 not found'') 1]
   \<and> fst (scoreCandidates downWorld ''Go engineer'' [alice, bob, carol] twoByTwo)
       = Failure (RATE_LIMIT 30 ''API rate limit exceeded'')
   \<and> batchOutcomes silentWorld [[alice, bob], [carol]] ''Go engineer'' (options.weights twoByTwo)
       = [BatchSuccess [], BatchSuccess []]
   \<and> fst (scoreCandidates silentWorld ''Go engineer'' [alice, bob, carol] twoByTwo)
       = Failure (UNKNOWN_ERROR ''No candidates could be scored'')"
proof -
  let ?outcomes = "[BatchFailure (RATE_LIMIT 30 ''API rate limit exceeded'') 0,
          BatchFailure (UNKNOWN_ERROR ''Candidate with ID c1 not found'') 1]"
  let ?silent = "[BatchSuccess [], BatchSuccess []]"
  have ne: "[alice, bob, carol] \<noteq> []" by simp
  have cb: "createBatches [alice, bob, carol] (batchSizeOf twoByTwo) = Inr [[alice, bob], [carol]]"
    by (simp add: batchSizeOf_def twoByTwo_def three_in_twos)
  have ws: "options.weights twoByTwo = None" by (simp add: twoByTwo_def)
  have oc: "?outcomes
      = batchOutcomes downWorld [[alice, bob], [carol]] ''Go engineer'' (options.weights twoByTwo)"
    by (simp only: ws down_outcomes)
  have none: "concat (map dataOf (filter isSuccess ?outcomes)) = []" by simp
  have "0 < length ?outcomes
      \<and> ?outcomes ! 0 = BatchFailure (RATE_LIMIT 30 ''API rate limit exceeded'') 0
      \<and> (\<forall>l<0. isSuccess (?outcomes ! l))"
    by simp
  with total_failure_first_error [OF ne cb oc none]
  have first: "fst (scoreCandidates downWorld ''Go engineer'' [alice, bob, carol] twoByTwo)
       = Failure (RATE_LIMIT 30 ''API rate limit exceeded'')"
    by blast
  have so: "?silent
      = batchOutcomes silentWorld [[alice, bob], [carol]] ''Go engineer'' (options.weights twoByTwo)"
    by (simp only: ws silent_outcomes)
  have snone: "concat (map dataOf (filter isSuccess ?silent)) = []" by simp
  have "\<forall>k<length ?silent. isSuccess (?silent ! k)"
    by (simp add: nth_Cons split: nat.splits)
  with total_failure_first_error [OF ne cb so snone]
  have quiet: "fst (scoreCandidates silentWorld ''Go engineer'' [alice, bob, carol] twoByTwo)
       = Failure (UNKNOWN_ERROR ''No candidates could be scored'')"
    by blast
  from ne cb oc first so quiet show ?thesis by simp
qed

text \<open>
  Claim C7. For the empty pool \<open>scoreCandidates\<close> returns success with the empty list, and
  the trace of the run is empty: no batch is created, the gateway is not invoked (neither
  \<^verbatim>\<open>generateObject\<close> nor \<^verbatim>\<open>generateText\<close>) and nothing pauses.
\<close>

theorem empty_pool_no_calls:
  "scoreCandidates w jd [] opts = (Success [], [])
   \<and> invocations (snd (scoreCandidates w jd [] opts)) = 0"
  by (simp add: scoreCandidates_def Let_def)

theorem empty_pool_no_calls_witness:
  "scoreCandidates downWorld ''Go engineer'' [] twoByTwo = (Success [], [])"
  using empty_pool_no_calls [of downWorld "''Go engineer''" twoByTwo] by simp

section \<open>Properties of the request boundary\<close>

lemma validate_accepts:
  "(\<exists>d. validateRequestBody body = Inr d)
     = (10 \<le> length (ScoreRequestBody.jobDescription body)
        \<and> length (ScoreRequestBody.jobDescription body) \<le> 200
        \<and> (case ScoreRequestBody.maxResults body of
              None \<Rightarrow> True | Some m \<Rightarrow> rat_of_int \<lfloor>m\<rfloor> = m \<and> 1 \<le> m \<and> m \<le> 100)
        \<and> (case ScoreRequestBody.weights body of
              None \<Rightarrow> True
            | Some ws \<Rightarrow> inUnitInterval (skillsMatch ws) \<and> inUnitInterval (experienceLevel ws)
                \<and> inUnitInterval (education ws) \<and> inUnitInterval (portfolio ws)
                \<and> inUnitInterval (availability ws)))"
  by (auto simp: validateRequestBody_def split: option.splits)

lemma accepted_weights:
  "validateRequestBody body = Inr d \<Longrightarrow> ScoreRequestData.weights d = ScoreRequestBody.weights body"
  by (auto simp: validateRequestBody_def split: option.splits if_splits)

lemma complete_forwarded:
  "complete ws \<Longrightarrow> ScoreRequestData.weights d = Some ws \<Longrightarrow>
     options.weights (scoringOptions d) = Some ws"
  by (cases ws) (auto simp: complete_def scoringOptions_def orDefault_def)

lemma POST_accepted:
  assumes "validateRequestBody body = Inr d" "candidates \<noteq> []"
  shows "fst (POST w body candidates) =
     (case fst (scoreCandidates w (ScoreRequestData.jobDescription d) candidates (scoringOptions d)) of
        Failure e \<Rightarrow> createErrorResponse e
      | Success ranked \<Rightarrow> ScoreResponse ranked (length candidates))"
proof -
  obtain r tr where "scoreCandidates w (ScoreRequestData.jobDescription d) candidates (scoringOptions d) = (r, tr)"
    by (cases "scoreCandidates w (ScoreRequestData.jobDescription d) candidates (scoringOptions d)")
  with assms show ?thesis by (cases r) (simp_all add: POST_def)
qed

lemma low_accepted:
  "validateRequestBody lowWeightsBody
     = Inr \<lparr>jobDescription = ''Senior Go engineer'', maxResults = 30, weights = Some lowWeights\<rparr>"
  by (simp add: validateRequestBody_def lowWeightsBody_def lowWeights_def inUnitInterval_def)

text \<open>
  Claim C5, as the code has it. The request boundary accepts a body exactly when the job
  description has 10 to 200 characters, \<^verbatim>\<open>maxResults\<close> (when present) is an integer from 1 to
  100, and every weight that is supplied lies in \<open>[0, 1]\<close>: the sum of the weights is not
  looked at. A complete set of weights that is accepted is handed to \<open>scoreCandidates\<close> as it
  was supplied. A body that is rejected is answered with a \<open>VALIDATION_ERROR\<close> and status 400
  before any scoring attempt: the trace is empty.
\<close>

theorem request_weights_validation:
  "(\<exists>d. validateRequestBody body = Inr d)
     = (10 \<le> length (ScoreRequestBody.jobDescription body)
        \<and> length (ScoreRequestBody.jobDescription body) \<le> 200
        \<and> (case ScoreRequestBody.maxResults body of
              None \<Rightarrow> True | Some m \<Rightarrow> rat_of_int \<lfloor>m\<rfloor> = m \<and> 1 \<le> m \<and> m \<le> 100)
        \<and> (case ScoreRequestBody.weights body of
              None \<Rightarrow> True
            | Some ws \<Rightarrow> inUnitInterval (skillsMatch ws) \<and> inUnitInterval (experienceLevel ws)
                \<and> inUnitInterval (education ws) \<and> inUnitInterval (portfolio ws)
                \<and> inUnitInterval (availability ws)))
   \<and> (\<forall>d ws. validateRequestBody body = Inr d \<and> ScoreRequestBody.weights body = Some ws
          \<and> complete ws \<longrightarrow> options.weights (scoringOptions d) = Some ws)
   \<and> (\<forall>err. validateRequestBody body = Inl err \<longrightarrow>
          POST w body candidates = (ErrorResponse (VALIDATION_ERROR ''body'' err) 400, []))"
proof -
  have fwd: "options.weights (scoringOptions d) = Some ws"
    if "validateRequestBody body = Inr d" "ScoreRequestBody.weights body = Some ws" "complete ws"
    for d ws
    using accepted_weights [OF that(1)] that(2,3) by (simp add: complete_forwarded)
  have rej: "POST w body candidates = (ErrorResponse (VALIDATION_ERROR ''body'' err) 400, [])"
    if "validateRequestBody body = Inl err" for err
    using that by (simp add: POST_def createErrorResponse_def)
  from validate_accepts [of body] fwd rej show ?thesis by blast
qed

theorem request_weights_validation_witness:
  "validateRequestBody lowWeightsBody
       = Inr \<lparr>jobDescription = ''Senior Go engineer'', maxResults = 30, weights = Some lowWeights\<rparr>
   \<and> ScoreRequestBody.weights lowWeightsBody = Some lowWeights
   \<and> complete lowWeights
   \<and> options.weights (scoringOptions
         \<lparr>jobDescription = ''Senior Go engineer'', maxResults = 30, weights = Some lowWeights\<rparr>)
       = Some lowWeights
   \<and> validateRequestBody (lowWeightsBody\<lparr>ScoreRequestBody.jobDescription := ''short''\<rparr>)
       = Inl ''jobDescription''
   \<and> POST mixedWorld (lowWeightsBody\<lparr>ScoreRequestBody.jobDescription := ''short''\<rparr>) [alice, bob]
       = (ErrorResponse (VALIDATION_ERROR ''body'' ''jobDescription'') 400, [])"
proof -
  have w: "ScoreRequestBody.weights lowWeightsBody = Some lowWeights"
    by (simp add: lowWeightsBody_def)
  have c: "complete lowWeights" by (simp add: complete_def lowWeights_def)
  have short: "validateRequestBody (lowWeightsBody\<lparr>ScoreRequestBody.jobDescription := ''short''\<rparr>)
       = Inl ''jobDescription''"
    by (simp add: validateRequestBody_def)
  from request_weights_validation [of lowWeightsBody] low_accepted w c
  have a: "options.weights (scoringOptions
         \<lparr>jobDescription = ''Senior Go engineer'', maxResults = 30, weights = Some lowWeights\<rparr>)
       = Some lowWeights"
    by blast
  from request_weights_validation
    [of "lowWeightsBody\<lparr>ScoreRequestBody.jobDescription := ''short''\<rparr>" mixedWorld "[alice, bob]"]
    short
  have b: "POST mixedWorld (lowWeightsBody\<lparr>ScoreRequestBody.jobDescription := ''short''\<rparr>) [alice, bob]
       = (ErrorResponse (VALIDATION_ERROR ''body'' ''jobDescription'') 400, [])"
    by blast
  from low_accepted w c a short b show ?thesis by blast
qed

text \<open>
  Claim C5 as the specification states it fails on a complete set of weights whose sum is
  \<open>0.8\<close>: \<^verbatim>\<open>ScoringWeightsSchema\<close> would refuse it, the request boundary accepts it, and the
  candidates are scored and ranked.
\<close>

theorem request_weights_counterexample:
  "complete lowWeights
   \<and> \<not> ScoringWeightsSchema (2 / 10) (2 / 10) (2 / 10) (1 / 10) (1 / 10)
   \<and> validateRequestBody lowWeightsBody
       = Inr \<lparr>jobDescription = ''Senior Go engineer'', maxResults = 30, weights = Some lowWeights\<rparr>
   \<and> fst (POST mixedWorld lowWeightsBody [alice, bob])
       = ScoreResponse [scored bob bobItem, scored alice aliceItem] 2"
proof -
  let ?d = "\<lparr>jobDescription = ''Senior Go engineer'', maxResults = 30, weights = Some lowWeights\<rparr>"
  have c: "complete lowWeights" by (simp add: complete_def lowWeights_def)
  have s: "\<not> ScoringWeightsSchema (2 / 10) (2 / 10) (2 / 10) (1 / 10) (1 / 10)"
    by (simp add: ScoringWeightsSchema_def)
  have ne: "[alice, bob] \<noteq> []" by simp
  have size: "batchSizeOf (scoringOptions ?d) = 10"
    by (simp add: batchSizeOf_def scoringOptions_def defaultBatchSize_def)
  have lim: "maxResultsOf (scoringOptions ?d) = 30"
    by (simp add: maxResultsOf_def scoringOptions_def)
  have "nat \<lceil>rat_of_nat (length [alice, bob]) / rat_of_nat 10\<rceil> = 1"
    using ceiling_quotient [of 10 2] by simp
  then have cb: "createBatches [alice, bob] (batchSizeOf (scoringOptions ?d)) = Inr [[alice, bob]]"
    by (simp add: size createBatches_def slice_def)
  have "retryWithBackoff GenerateObject (generateObject (llm mixedWorld 0)) maxRetries
      = (Inr [aliceItem, bobItem], [Invoke GenerateObject])"
    by (rule retry_first_try) (simp add: mixedWorld_def pairGateway_def)
  then have "fst (scoreBatchWithStrategy mixedWorld (llm mixedWorld 0) ''Senior Go engineer''
                [alice, bob] Structured (options.weights (scoringOptions ?d)))
      = Inr (Success [scored alice aliceItem, scored bob bobItem])"
    using default_provider [of mixedWorld] scored_alice scored_bob
    by (simp add: scoreBatchWithStrategy_def mixedWorld_def)
  then have "fst (processBatch mixedWorld [alice, bob] 0 ''Senior Go engineer''
                (options.weights (scoringOptions ?d)))
      = Inr (BatchSuccess [scored alice aliceItem, scored bob bobItem])"
    by (simp add: processBatch_cases)
  then have oc: "batchOutcomes mixedWorld [[alice, bob]] ''Senior Go engineer''
                (options.weights (scoringOptions ?d))
      = [BatchSuccess [scored alice aliceItem, scored bob bobItem]]"
    by (simp add: batchOutcomes_def settle_def)
  have "ScoredCandidate.score (scored alice aliceItem) = 90"
    "ScoredCandidate.score (scored bob bobItem) = 95"
    by (simp_all add: scored_def aliceItem_def bobItem_def Candidate.defs ScoredCandidate.defs)
  then have "sortAndLimitCandidates [scored alice aliceItem, scored bob bobItem] 30
      = [scored bob bobItem, scored alice aliceItem]"
    by (simp add: sortAndLimitCandidates_def)
  with scoreCandidates_result [OF ne cb, of mixedWorld "''Senior Go engineer''"] oc lim
  have "fst (scoreCandidates mixedWorld ''Senior Go engineer'' [alice, bob] (scoringOptions ?d))
      = Success [scored bob bobItem, scored alice aliceItem]"
    by simp
  with POST_accepted [OF low_accepted ne, of mixedWorld]
  have "fst (POST mixedWorld lowWeightsBody [alice, bob])
       = ScoreResponse [scored bob bobItem, scored alice aliceItem] 2"
    by simp
  with c s low_accepted show ?thesis by blast
qed

end
